theory Spec2Isabelle
  imports Main "HOL-Library.Word"
begin

unbundle bit_operations_syntax

section \<open>Data model\<close>

text \<open>
  Go's \<^verbatim>\<open>byte\<close>, \<^verbatim>\<open>int64\<close> and \<^verbatim>\<open>uint64\<close> are machine words; an \<^verbatim>\<open>int64\<close> is read
  with \<open>sint\<close>, a \<^verbatim>\<open>uint64\<close> with \<open>unat\<close>. A byte slice is a list of bytes (a nil slice is the
  empty list). \<^verbatim>\<open>types.Address\<close> is a 20-byte array and \<^verbatim>\<open>types.Hash\<close> a 32-byte array;
  both are byte lists here, and the lengths are stated where a property needs them.
  A \<^verbatim>\<open>*big.Int\<close> is an unbounded \<open>int\<close>. The index of a \<^verbatim>\<open>range\<close> loop and the
  \<^verbatim>\<open>size\<close> argument of a padding function are Go \<^verbatim>\<open>int\<close>s that are never negative: \<open>nat\<close>.
\<close>

type_synonym byte = "8 word"
type_synonym int64 = "64 word"
type_synonym uint64 = "64 word"
type_synonym Address = "byte list"
type_synonym Hash = "byte list"

text \<open>
  Go \<^verbatim>\<open>error\<close> values: the two errors of \<^verbatim>\<open>encoding/hex\<close>, the error of the numeric
  parser, an error wrapped by \<^verbatim>\<open>fmt.Errorf\<close> with \<^verbatim>\<open>%w\<close>, and the errors that come out of a
  collaborator (file system, JSON, ABI, state), which carry their message.
\<close>

datatype error =
    ErrLength
  | InvalidByteError char
  | CouldNotParse
  | Errorf string error
  | CollaboratorError string

text \<open>A Go call either returns or panics; a panic carries its message.\<close>

datatype 'a outcome = Returns 'a | Panics string

subsection \<open>\<^verbatim>\<open>math/big\<close>\<close>

text \<open>
  \<^verbatim>\<open>big.NewInt(x)\<close> takes an \<^verbatim>\<open>int64\<close>. \<^verbatim>\<open>(*big.Int).Bytes()\<close> is the big-endian
  representation of the absolute value, with no leading zero byte (empty for 0);
  \<^verbatim>\<open>SetBytes\<close> reads a byte slice as a big-endian unsigned integer.
\<close>

definition big_NewInt :: "int64 \<Rightarrow> int" where
  "big_NewInt x = sint x"

function natBytes :: "nat \<Rightarrow> byte list" where
  "natBytes n = (if n = 0 then [] else natBytes (n div 256) @ [of_nat (n mod 256)])"
  by pat_completeness auto
termination
  by (relation "measure (\<lambda>n. n)") auto

declare natBytes.simps [simp del]

definition bytesNat :: "byte list \<Rightarrow> nat" where
  "bytesNat bs = foldl (\<lambda>acc b. acc * 256 + unat b) 0 bs"

definition big_Bytes :: "int \<Rightarrow> byte list" where
  "big_Bytes x = natBytes (nat \<bar>x\<bar>)"

definition big_SetBytes :: "byte list \<Rightarrow> int" where
  "big_SetBytes bs = int (bytesNat bs)"

subsection \<open>Helpers of the repository that the staking package calls\<close>

text \<open>
  Modelled from the spec: \<^verbatim>\<open>common.PadLeftOrTrim\<close> (package \<^verbatim>\<open>helper/common\<close>, not among
  the sources at hand) "left-pads to 32 bytes"; as its name says, a slice longer than the
  size keeps its last bytes.
\<close>

definition PadLeftOrTrim :: "byte list \<Rightarrow> nat \<Rightarrow> byte list" where
  "PadLeftOrTrim bb size' =
     (let l = length bb in
      if l = size' then bb
      else if l > size' then drop (l - size') bb
      else replicate (size' - l) 0 @ bb)"

text \<open>
  Modelled from the spec: \<^verbatim>\<open>types.BytesToHash\<close> (package \<^verbatim>\<open>types\<close>) is the "normalization
  to fixed width" of the storage-key type: the last 32 bytes of the slice, right-aligned
  in a zeroed 32-byte array.
\<close>

definition HashLength :: nat where
  "HashLength = 32"

definition BytesToHash :: "byte list \<Rightarrow> Hash" where
  "BytesToHash b =
     (let m = min (length b) HashLength in
      replicate (HashLength - m) 0 @ drop (length b - m) b)"

text \<open>\<^verbatim>\<open>strings.TrimPrefix\<close> and \<^verbatim>\<open>strings.HasPrefix\<close> of the Go library.\<close>

definition HasPrefix :: "string \<Rightarrow> string \<Rightarrow> bool" where
  "HasPrefix s p = (take (length p) s = p)"

definition TrimPrefix :: "string \<Rightarrow> string \<Rightarrow> string" where
  "TrimPrefix s p = (if HasPrefix s p then drop (length p) s else s)"

text \<open>
  \<^verbatim>\<open>hex.DecodeString\<close> (package \<^verbatim>\<open>helper/hex\<close>, a wrapper of \<^verbatim>\<open>encoding/hex\<close>): two hex
  digits make a byte; the first character that is no hex digit, or an odd length, is an
  error, returned together with the bytes decoded before it.
\<close>

definition fromHexChar :: "char \<Rightarrow> nat option" where
  "fromHexChar c =
     (let n = (of_char c :: nat) in
      if 48 \<le> n \<and> n \<le> 57 then Some (n - 48)
      else if 97 \<le> n \<and> n \<le> 102 then Some (n - 87)
      else if 65 \<le> n \<and> n \<le> 70 then Some (n - 55)
      else None)"

fun hex_DecodeString :: "string \<Rightarrow> byte list \<times> error option" where
  "hex_DecodeString [] = ([], None)"
| "hex_DecodeString [p] =
     (case fromHexChar p of
        None \<Rightarrow> ([], Some (InvalidByteError p))
      | Some a \<Rightarrow> ([], Some ErrLength))"
| "hex_DecodeString (p # q # rest) =
     (case fromHexChar p of
        None \<Rightarrow> ([], Some (InvalidByteError p))
      | Some a \<Rightarrow>
          (case fromHexChar q of
             None \<Rightarrow> ([], Some (InvalidByteError q))
           | Some b \<Rightarrow>
               (case hex_DecodeString rest of
                  (bs, e) \<Rightarrow> (of_nat (a * 16 + b) # bs, e))))"

definition hex_DecodeHex :: "string \<Rightarrow> byte list \<times> error option" where
  "hex_DecodeHex str = hex_DecodeString (TrimPrefix str ''0x'')"

text \<open>
  Modelled from the spec: \<^verbatim>\<open>hex.EncodeUint64\<close> and \<^verbatim>\<open>hex.EncodeBig\<close> (package
  \<^verbatim>\<open>helper/hex\<close>) write an integer as a hex string with the prefix \<^verbatim>\<open>0x\<close>, in lower case and
  without leading zeros (\<^verbatim>\<open>0x0\<close> for zero), the sign of a negative big integer first.
\<close>

definition hexDigit :: "nat \<Rightarrow> char" where
  "hexDigit d = ''0123456789abcdef'' ! d"

function natHex :: "nat \<Rightarrow> string" where
  "natHex n = (if n < 16 then [hexDigit n] else natHex (n div 16) @ [hexDigit (n mod 16)])"
  by pat_completeness auto
termination
  by (relation "measure (\<lambda>n. n)") auto

declare natHex.simps [simp del]

definition hex_EncodeUint64 :: "uint64 \<Rightarrow> string" where
  "hex_EncodeUint64 i = ''0x'' @ natHex (unat i)"

definition hex_EncodeBig :: "int \<Rightarrow> string" where
  "hex_EncodeBig b = (if b < 0 then ''-'' else []) @ ''0x'' @ natHex (nat \<bar>b\<bar>)"

text \<open>
  Modelled from the spec: \<^verbatim>\<open>types.StringToHash\<close> (package \<^verbatim>\<open>types\<close>) turns a hex string
  into a 32-byte value: the prefix \<^verbatim>\<open>0x\<close> is dropped, an odd number of digits gets a leading
  \<^verbatim>\<open>0\<close>, the digits are decoded (a decoding error is ignored) and the bytes normalised
  by \<open>BytesToHash\<close>.
\<close>

definition stringToBytes :: "string \<Rightarrow> byte list" where
  "stringToBytes str =
     (let s = TrimPrefix str ''0x'';
          s' = (if length s mod 2 = 1 then CHR ''0'' # s else s)
      in fst (hex_DecodeString s'))"

definition StringToHash :: "string \<Rightarrow> Hash" where
  "StringToHash str = BytesToHash (stringToBytes str)"

text \<open>
  Modelled from the spec: \<^verbatim>\<open>types.ParseUint256orHex\<close> (package \<^verbatim>\<open>types\<close>) parses the
  stake-amount literal; a malformed literal is an error. A literal with the prefix
  \<^verbatim>\<open>0x\<close> is read in base 16, any other in base 10, by \<^verbatim>\<open>(*big.Int).SetString\<close>: an
  optional sign, then at least one digit, and nothing but digits of the base (letters in
  either case). The caller passes the address of a local variable, never nil.
\<close>

definition digitVal :: "char \<Rightarrow> nat option" where
  "digitVal c =
     (let n = (of_char c :: nat) in
      if 48 \<le> n \<and> n \<le> 57 then Some (n - 48)
      else if 97 \<le> n \<and> n \<le> 122 then Some (n - 87)
      else if 65 \<le> n \<and> n \<le> 90 then Some (n - 55)
      else None)"

fun parseDigits :: "nat \<Rightarrow> nat \<Rightarrow> string \<Rightarrow> nat option" where
  "parseDigits base acc [] = Some acc"
| "parseDigits base acc (c # cs) =
     (case digitVal c of
        None \<Rightarrow> None
      | Some d \<Rightarrow> if d < base then parseDigits base (acc * base + d) cs else None)"

definition big_SetString :: "string \<Rightarrow> nat \<Rightarrow> int option" where
  "big_SetString s base =
     (let neg = (s \<noteq> [] \<and> hd s = CHR ''-'');
          ds = (if s \<noteq> [] \<and> (hd s = CHR ''-'' \<or> hd s = CHR ''+'') then tl s else s)
      in if ds = [] then None
         else (case parseDigits base 0 ds of
                 None \<Rightarrow> None
               | Some n \<Rightarrow> Some (if neg then - int n else int n)))"

definition ParseUint256orHex :: "string \<Rightarrow> error + int" where
  "ParseUint256orHex val =
     (let str = (if HasPrefix val ''0x'' then drop 2 val else val);
          base = (if HasPrefix val ''0x'' then 16 else 10)
      in case big_SetString str base of
           None \<Rightarrow> Inl CouldNotParse
         | Some b \<Rightarrow> Inr b)"

subsection \<open>Keccak-256\<close>

text \<open>
  Modelled from the spec: \<^verbatim>\<open>keccak.Keccak256\<close> (package \<^verbatim>\<open>helper/keccak\<close>) is the
  "256-bit cryptographic hash function" that the staking package consumes as a primitive:
  Keccak-256, the sponge over the permutation Keccak-f[1600] with rate 136 bytes and
  the padding byte 0x01. The state is five planes of five 64-bit lanes; lane \<open>(x, y)\<close> is
  component \<open>x\<close> of plane \<open>y\<close>. The first argument of \<^verbatim>\<open>Keccak256(nil, b)\<close> is the
  destination buffer, nil at every call.
\<close>

type_synonym lane = "64 word"
type_synonym plane = "lane \<times> lane \<times> lane \<times> lane \<times> lane"
type_synonym kstate = "plane \<times> plane \<times> plane \<times> plane \<times> plane"

definition rotl64 :: "nat \<Rightarrow> lane \<Rightarrow> lane" where
  "rotl64 n w = push_bit n w OR drop_bit (64 - n) w"

definition roundConstants :: "lane list" where
  "roundConstants =
    [0x0000000000000001, 0x0000000000008082, 0x800000000000808A, 0x8000000080008000,
     0x000000000000808B, 0x0000000080000001, 0x8000000080008081, 0x8000000000008009,
     0x000000000000008A, 0x0000000000000088, 0x0000000080008009, 0x000000008000000A,
     0x000000008000808B, 0x800000000000008B, 0x8000000000008089, 0x8000000000008003,
     0x8000000000008002, 0x8000000000000080, 0x000000000000800A, 0x800000008000000A,
     0x8000000080008081, 0x8000000000008080, 0x0000000080000001, 0x8000000080008008]"

fun thetaC :: "kstate \<Rightarrow> plane" where
  "thetaC ((a00, a10, a20, a30, a40),
     (a01, a11, a21, a31, a41),
     (a02, a12, a22, a32, a42),
     (a03, a13, a23, a33, a43),
     (a04, a14, a24, a34, a44)) =
    (a00 XOR a01 XOR a02 XOR a03 XOR a04,
     a10 XOR a11 XOR a12 XOR a13 XOR a14,
     a20 XOR a21 XOR a22 XOR a23 XOR a24,
     a30 XOR a31 XOR a32 XOR a33 XOR a34,
     a40 XOR a41 XOR a42 XOR a43 XOR a44)"

fun thetaD :: "plane \<Rightarrow> plane" where
  "thetaD (c0, c1, c2, c3, c4) =
    (c4 XOR rotl64 1 c1,
     c0 XOR rotl64 1 c2,
     c1 XOR rotl64 1 c3,
     c2 XOR rotl64 1 c4,
     c3 XOR rotl64 1 c0)"

fun xorPlane :: "plane \<Rightarrow> plane \<Rightarrow> plane" where
  "xorPlane (d0, d1, d2, d3, d4) (a0, a1, a2, a3, a4) =
    (a0 XOR d0, a1 XOR d1, a2 XOR d2, a3 XOR d3, a4 XOR d4)"

fun thetaApply :: "plane \<Rightarrow> kstate \<Rightarrow> kstate" where
  "thetaApply d (p0, p1, p2, p3, p4) =
    (xorPlane d p0, xorPlane d p1, xorPlane d p2, xorPlane d p3, xorPlane d p4)"

fun rhoPi :: "kstate \<Rightarrow> kstate" where
  "rhoPi ((a00, a10, a20, a30, a40),
     (a01, a11, a21, a31, a41),
     (a02, a12, a22, a32, a42),
     (a03, a13, a23, a33, a43),
     (a04, a14, a24, a34, a44)) =
    ((rotl64 0 a00, rotl64 44 a11, rotl64 43 a22, rotl64 21 a33, rotl64 14 a44),
     (rotl64 28 a30, rotl64 20 a41, rotl64 3 a02, rotl64 45 a13, rotl64 61 a24),
     (rotl64 1 a10, rotl64 6 a21, rotl64 25 a32, rotl64 8 a43, rotl64 18 a04),
     (rotl64 27 a40, rotl64 36 a01, rotl64 10 a12, rotl64 15 a23, rotl64 56 a34),
     (rotl64 62 a20, rotl64 55 a31, rotl64 39 a42, rotl64 41 a03, rotl64 2 a14))"

fun chiPlane :: "plane \<Rightarrow> plane" where
  "chiPlane (b0, b1, b2, b3, b4) =
    (b0 XOR (NOT b1 AND b2),
     b1 XOR (NOT b2 AND b3),
     b2 XOR (NOT b3 AND b4),
     b3 XOR (NOT b4 AND b0),
     b4 XOR (NOT b0 AND b1))"

fun chi :: "kstate \<Rightarrow> kstate" where
  "chi (p0, p1, p2, p3, p4) = (chiPlane p0, chiPlane p1, chiPlane p2, chiPlane p3, chiPlane p4)"

fun iota :: "lane \<Rightarrow> kstate \<Rightarrow> kstate" where
  "iota rc ((a00, r), ps) = ((a00 XOR rc, r), ps)"

definition theta :: "kstate \<Rightarrow> kstate" where
  "theta a = thetaApply (thetaD (thetaC a)) a"

definition keccakRound :: "kstate \<Rightarrow> lane \<Rightarrow> kstate" where
  "keccakRound a rc = iota rc (chi (rhoPi (theta a)))"

definition keccakF :: "kstate \<Rightarrow> kstate" where
  "keccakF a = foldl keccakRound a roundConstants"

text \<open>Lanes are little-endian; a block of 136 bytes is 17 lanes.\<close>

fun laneOfBytes :: "byte list \<Rightarrow> lane" where
  "laneOfBytes [] = 0"
| "laneOfBytes (b # bs) = ucast b OR push_bit 8 (laneOfBytes bs)"

definition bytesOfLane :: "lane \<Rightarrow> byte list" where
  "bytesOfLane w = map (\<lambda>k. ucast (drop_bit (8 * k) w)) [0, 1, 2, 3, 4, 5, 6, 7]"

fun lanesOfBytes :: "byte list \<Rightarrow> lane list" where
  "lanesOfBytes (b0 # b1 # b2 # b3 # b4 # b5 # b6 # b7 # bs) =
     laneOfBytes [b0, b1, b2, b3, b4, b5, b6, b7] # lanesOfBytes bs"
| "lanesOfBytes _ = []"

fun xorLanes :: "lane list \<Rightarrow> lane list \<Rightarrow> lane list" where
  "xorLanes (a # as) (b # bs) = (a XOR b) # xorLanes as bs"
| "xorLanes as [] = as"
| "xorLanes [] bs = []"

definition planeOfLanes :: "lane list \<Rightarrow> plane" where
  "planeOfLanes l = (l ! 0, l ! 1, l ! 2, l ! 3, l ! 4)"

definition kstateOfLanes :: "lane list \<Rightarrow> kstate" where
  "kstateOfLanes l =
     (planeOfLanes l, planeOfLanes (drop 5 l), planeOfLanes (drop 10 l),
      planeOfLanes (drop 15 l), planeOfLanes (drop 20 l))"

fun lanesOfPlane :: "plane \<Rightarrow> lane list" where
  "lanesOfPlane (a0, a1, a2, a3, a4) = [a0, a1, a2, a3, a4]"

fun lanesOfKstate :: "kstate \<Rightarrow> lane list" where
  "lanesOfKstate (p0, p1, p2, p3, p4) =
     lanesOfPlane p0 @ lanesOfPlane p1 @ lanesOfPlane p2 @ lanesOfPlane p3 @ lanesOfPlane p4"

definition zeroState :: kstate where
  "zeroState =
     ((0, 0, 0, 0, 0), (0, 0, 0, 0, 0), (0, 0, 0, 0, 0), (0, 0, 0, 0, 0), (0, 0, 0, 0, 0))"

definition pad101 :: "byte list \<Rightarrow> byte list" where
  "pad101 m =
     (let q = 136 - length m mod 136 in
      if q = 1 then m @ [0x81] else m @ [0x01] @ replicate (q - 2) 0 @ [0x80])"

definition absorbBlock :: "kstate \<Rightarrow> byte list \<Rightarrow> kstate" where
  "absorbBlock st blk = keccakF (kstateOfLanes (xorLanes (lanesOfKstate st) (lanesOfBytes blk)))"

function absorb :: "kstate \<Rightarrow> byte list \<Rightarrow> kstate" where
  "absorb st bs =
     (if length bs < 136 then st
      else absorb (absorbBlock st (take 136 bs)) (drop 136 bs))"
  by pat_completeness auto
termination
  by (relation "measure (\<lambda>(st, bs). length bs)") auto

declare absorb.simps [simp del]

definition squeeze :: "kstate \<Rightarrow> byte list" where
  "squeeze st = concat (map bytesOfLane (take 4 (lanesOfKstate st)))"

definition Keccak256 :: "byte list \<Rightarrow> byte list" where
  "Keccak256 m = squeeze (absorb zeroState (pad101 m))"

section \<open>The staking package\<close>

subsection \<open>Storage slots and storage indexes\<close>

definition validatorsSlot :: int64 where
  "validatorsSlot = 0"

definition addressToIsValidatorSlot :: int64 where
  "addressToIsValidatorSlot = 1"

definition addressToStakedAmountSlot :: int64 where
  "addressToStakedAmountSlot = 2"

definition addressToValidatorIndexSlot :: int64 where
  "addressToValidatorIndexSlot = 3"

definition stakedAmountSlot :: int64 where
  "stakedAmountSlot = 4"

definition minNumValidatorSlot :: int64 where
  "minNumValidatorSlot = 5"

definition maxNumValidatorSlot :: int64 where
  "maxNumValidatorSlot = 6"

definition getAddressMapping :: "Address \<Rightarrow> int64 \<Rightarrow> byte list" where
  "getAddressMapping address slot =
     (let bigSlot = big_NewInt slot;
          finalSlice = PadLeftOrTrim address 32 @ PadLeftOrTrim (big_Bytes bigSlot) 32;
          keccakValue = Keccak256 finalSlice
      in keccakValue)"

definition getIndexWithOffset :: "byte list \<Rightarrow> int64 \<Rightarrow> byte list" where
  "getIndexWithOffset keccakHash offset =
     (let bigOffset = big_NewInt offset;
          bigKeccak = big_SetBytes keccakHash
      in big_Bytes (bigKeccak + bigOffset))"

record StorageIndexes =
  ValidatorsIndex :: "byte list"
  ValidatorsArraySizeIndex :: "byte list"
  AddressToIsValidatorIndex :: "byte list"
  AddressToStakedAmountIndex :: "byte list"
  AddressToValidatorIndexIndex :: "byte list"
  StakedAmountIndex :: "byte list"

definition getStorageIndexes :: "Address \<Rightarrow> int64 \<Rightarrow> StorageIndexes" where
  "getStorageIndexes address index =
     \<lparr> ValidatorsIndex =
         getIndexWithOffset
           (Keccak256 (PadLeftOrTrim (big_Bytes (big_NewInt validatorsSlot)) 32)) index,
       ValidatorsArraySizeIndex = [ucast validatorsSlot],
       AddressToIsValidatorIndex = getAddressMapping address addressToIsValidatorSlot,
       AddressToStakedAmountIndex = getAddressMapping address addressToStakedAmountSlot,
       AddressToValidatorIndexIndex = getAddressMapping address addressToValidatorIndexSlot,
       StakedAmountIndex = big_Bytes (big_NewInt stakedAmountSlot) \<rparr>"

subsection \<open>The genesis storage builder\<close>

record PredeployParams =
  MinValidatorCount :: uint64
  MaxValidatorCount :: uint64

text \<open>
  The fields of \<^verbatim>\<open>chain.GenesisAccount\<close> that the package sets. A storage map
  \<^verbatim>\<open>map[types.Hash]types.Hash\<close> is a partial function.
\<close>

record GenesisAccount =
  Code :: "byte list"
  Storage :: "Hash \<rightharpoonup> Hash"
  Balance :: int

definition DefaultStakedBalance :: string where
  "DefaultStakedBalance = ''0x8AC7230489E80000''"

definition StakingSCBytecode :: string where
  "StakingSCBytecode =
     ''0x6080604052600436106100f75760003560e01c80637dceceb81161008a578063e387a7ed11'' @
     ''610059578063e387a7ed14610381578063e804fbf6146103ac578063f90ecacc146103d75780'' @
     ''63facd743b1461041457610165565b80637dceceb8146102c3578063af6da36e146103005780'' @
     ''63c795c0771461032b578063ca1e78191461035657610165565b8063373d6132116100c65780'' @
     ''63373d6132146102385780633a4b66f114610263578063714ff4251461026d5780637a6eea37'' @
     ''1461029857610165565b806302b751991461016a578063065ae171146101a75780632367f6b5'' @
     ''146101e45780632def66201461022157610165565b366101655761011b3373ffffffffffffff'' @
     ''ffffffffffffffffffffffffff16610451565b1561015b576040517f08c379a0000000000000'' @
     ''000000000000000000000000000000000000000000008152600401610152906111a0565b6040'' @
     ''5180910390fd5b610163610464565b005b600080fd5b34801561017657600080fd5b50610191'' @
     ''600480360381019061018c9190610f1e565b61053b565b60405161019e91906111fb565b6040'' @
     ''5180910390f35b3480156101b357600080fd5b506101ce60048036038101906101c99190610f'' @
     ''1e565b610553565b6040516101db9190611125565b60405180910390f35b3480156101f05760'' @
     ''0080fd5b5061020b60048036038101906102069190610f1e565b610573565b60405161021891'' @
     ''906111fb565b60405180910390f35b34801561022d57600080fd5b506102366105bc565b005b'' @
     ''34801561024457600080fd5b5061024d6106a7565b60405161025a91906111fb565b60405180'' @
     ''910390f35b61026b6106b1565b005b34801561027957600080fd5b5061028261071a565b6040'' @
     ''5161028f91906111fb565b60405180910390f35b3480156102a457600080fd5b506102ad6107'' @
     ''24565b6040516102ba91906111e0565b60405180910390f35b3480156102cf57600080fd5b50'' @
     ''6102ea60048036038101906102e59190610f1e565b610730565b6040516102f791906111fb56'' @
     ''5b60405180910390f35b34801561030c57600080fd5b50610315610748565b60405161032291'' @
     ''906111fb565b60405180910390f35b34801561033757600080fd5b5061034061074e565b6040'' @
     ''5161034d91906111fb565b60405180910390f35b34801561036257600080fd5b5061036b6107'' @
     ''54565b6040516103789190611103565b60405180910390f35b34801561038d57600080fd5b50'' @
     ''6103966107e2565b6040516103a391906111fb565b60405180910390f35b3480156103b85760'' @
     ''0080fd5b506103c16107e8565b6040516103ce91906111fb565b60405180910390f35b348015'' @
     ''6103e357600080fd5b506103fe60048036038101906103f99190610f4b565b6107f2565b6040'' @
     ''5161040b91906110e8565b60405180910390f35b34801561042057600080fd5b5061043b6004'' @
     ''8036038101906104369190610f1e565b610831565b6040516104489190611125565b60405180'' @
     ''910390f35b600080823b905060008111915050919050565b3460046000828254610476919061'' @
     ''1260565b9250508190555034600260003373ffffffffffffffffffffffffffffffffffffffff'' @
     ''1673ffffffffffffffffffffffffffffffffffffffff16815260200190815260200160002060'' @
     ''008282546104cc9190611260565b925050819055506104dc33610887565b156104eb576104ea'' @
     ''336108ff565b5b3373ffffffffffffffffffffffffffffffffffffffff167f9e71bc8eea02a6'' @
     ''3969f509818f2dafb9254532904319f9dbda79b67bd34a5f3d3460405161053191906111fb56'' @
     ''5b60405180910390a2565b60036020528060005260406000206000915090505481565b600160'' @
     ''20528060005260406000206000915054906101000a900460ff1681565b6000600260008373ff'' @
     ''ffffffffffffffffffffffffffffffffffffff1673ffffffffffffffffffffffffffffffffff'' @
     ''ffffff168152602001908152602001600020549050919050565b6105db3373ffffffffffffff'' @
     ''ffffffffffffffffffffffffff16610451565b1561061b576040517f08c379a0000000000000'' @
     ''000000000000000000000000000000000000000000008152600401610612906111a0565b6040'' @
     ''5180910390fd5b6000600260003373ffffffffffffffffffffffffffffffffffffffff1673ff'' @
     ''ffffffffffffffffffffffffffffffffffffff16815260200190815260200160002054116106'' @
     ''9d576040517f08c379a000000000000000000000000000000000000000000000000000000000'' @
     ''815260040161069490611140565b60405180910390fd5b6106a5610a4e565b565b6000600454'' @
     ''905090565b6106d03373ffffffffffffffffffffffffffffffffffffffff16610451565b1561'' @
     ''0710576040517f08c379a0000000000000000000000000000000000000000000000000000000'' @
     ''008152600401610707906111a0565b60405180910390fd5b610718610464565b565b60006005'' @
     ''54905090565b670de0b6b3a764000081565b6002602052806000526040600020600091509050'' @
     ''5481565b60065481565b60055481565b60606000805480602002602001604051908101604052'' @
     ''8092919081815260200182805480156107d857602002820191906000526020600020905b8160'' @
     ''009054906101000a900473ffffffffffffffffffffffffffffffffffffffff1673ffffffffff'' @
     ''ffffffffffffffffffffffffffffff168152602001906001019080831161078e575b50505050'' @
     ''50905090565b60045481565b6000600654905090565b6000818154811061080257600080fd5b'' @
     ''906000526020600020016000915054906101000a900473ffffffffffffffffffffffffffffff'' @
     ''ffffffffff1681565b6000600160008373ffffffffffffffffffffffffffffffffffffffff16'' @
     ''73ffffffffffffffffffffffffffffffffffffffff1681526020019081526020016000206000'' @
     ''9054906101000a900460ff169050919050565b600061089282610ba0565b1580156108f85750'' @
     ''670de0b6b3a76400006fffffffffffffffffffffffffffffffff16600260008473ffffffffff'' @
     ''ffffffffffffffffffffffffffffff1673ffffffffffffffffffffffffffffffffffffffff16'' @
     ''81526020019081526020016000205410155b9050919050565b60065460008054905010610948'' @
     ''576040517f08c379a00000000000000000000000000000000000000000000000000000000081'' @
     ''5260040161093f90611160565b60405180910390fd5b60018060008373ffffffffffffffffff'' @
     ''ffffffffffffffffffffff1673ffffffffffffffffffffffffffffffffffffffff1681526020'' @
     ''0190815260200160002060006101000a81548160ff0219169083151502179055506000805490'' @
     ''50600360008373ffffffffffffffffffffffffffffffffffffffff1673ffffffffffffffffff'' @
     ''ffffffffffffffffffffff168152602001908152602001600020819055506000819080600181'' @
     ''540180825580915050600190039060005260206000200160009091909190916101000a815481'' @
     ''73ffffffffffffffffffffffffffffffffffffffff021916908373ffffffffffffffffffffff'' @
     ''ffffffffffffffffff16021790555050565b6000600260003373ffffffffffffffffffffffff'' @
     ''ffffffffffffffff1673ffffffffffffffffffffffffffffffffffffffff1681526020019081'' @
     ''526020016000205490506000600260003373ffffffffffffffffffffffffffffffffffffffff'' @
     ''1673ffffffffffffffffffffffffffffffffffffffff16815260200190815260200160002081'' @
     ''9055508060046000828254610ae991906112b6565b92505081905550610af933610ba0565b15'' @
     ''610b0857610b0733610bf6565b5b3373ffffffffffffffffffffffffffffffffffffffff1661'' @
     ''08fc829081150290604051600060405180830381858888f19350505050158015610b4e573d60'' @
     ''00803e3d6000fd5b503373ffffffffffffffffffffffffffffffffffffffff167f0f5bb82176'' @
     ''feb1b5e747e28471aa92156a04d9f3ab9f45f28e2d704232b93f7582604051610b9591906111'' @
     ''fb565b60405180910390a250565b6000600160008373ffffffffffffffffffffffffffffffff'' @
     ''ffffffff1673ffffffffffffffffffffffffffffffffffffffff168152602001908152602001'' @
     ''60002060009054906101000a900460ff169050919050565b60055460008054905011610c3f57'' @
     ''6040517f08c379a0000000000000000000000000000000000000000000000000000000008152'' @
     ''600401610c36906111c0565b60405180910390fd5b600080549050600360008373ffffffffff'' @
     ''ffffffffffffffffffffffffffffff1673ffffffffffffffffffffffffffffffffffffffff16'' @
     ''81526020019081526020016000205410610cc5576040517f08c379a000000000000000000000'' @
     ''0000000000000000000000000000000000008152600401610cbc90611180565b604051809103'' @
     ''90fd5b6000600360008373ffffffffffffffffffffffffffffffffffffffff1673ffffffffff'' @
     ''ffffffffffffffffffffffffffffff1681526020019081526020016000205490506000600160'' @
     ''0080549050610d1d91906112b6565b9050808214610e0b576000808281548110610d3b57610d'' @
     ''3a6113ac565b5b9060005260206000200160009054906101000a900473ffffffffffffffffff'' @
     ''ffffffffffffffffffffff1690508060008481548110610d7d57610d7c6113ac565b5b906000'' @
     ''5260206000200160006101000a81548173ffffffffffffffffffffffffffffffffffffffff02'' @
     ''1916908373ffffffffffffffffffffffffffffffffffffffff16021790555082600360008373'' @
     ''ffffffffffffffffffffffffffffffffffffffff1673ffffffffffffffffffffffffffffffff'' @
     ''ffffffff16815260200190815260200160002081905550505b6000600160008573ffffffffff'' @
     ''ffffffffffffffffffffffffffffff1673ffffffffffffffffffffffffffffffffffffffff16'' @
     ''815260200190815260200160002060006101000a81548160ff02191690831515021790555060'' @
     ''00600360008573ffffffffffffffffffffffffffffffffffffffff1673ffffffffffffffffff'' @
     ''ffffffffffffffffffffff168152602001908152602001600020819055506000805480610eba'' @
     ''57610eb961137d565b5b6001900381819060005260206000200160006101000a81549073ffff'' @
     ''ffffffffffffffffffffffffffffffffffff02191690559055505050565b600081359050610f'' @
     ''03816114f9565b92915050565b600081359050610f1881611510565b92915050565b60006020'' @
     ''8284031215610f3457610f336113db565b5b6000610f4284828501610ef4565b915050929150'' @
     ''50565b600060208284031215610f6157610f606113db565b5b6000610f6f84828501610f0956'' @
     ''5b91505092915050565b6000610f848383610f90565b60208301905092915050565b610f9981'' @
     ''6112ea565b82525050565b610fa8816112ea565b82525050565b6000610fb982611226565b61'' @
     ''0fc3818561123e565b9350610fce83611216565b8060005b83811015610fff578151610fe688'' @
     ''82610f78565b9750610ff183611231565b925050600181019050610fd2565b50859350505050'' @
     ''92915050565b611015816112fc565b82525050565b6000611028601d8361124f565b91506110'' @
     ''33826113e0565b602082019050919050565b600061104b60278361124f565b91506110568261'' @
     ''1409565b604082019050919050565b600061106e60128361124f565b91506110798261145856'' @
     ''5b602082019050919050565b6000611091601a8361124f565b915061109c82611481565b6020'' @
     ''82019050919050565b60006110b460408361124f565b91506110bf826114aa565b6040820190'' @
     ''50919050565b6110d381611308565b82525050565b6110e281611344565b82525050565b6000'' @
     ''6020820190506110fd6000830184610f9f565b92915050565b60006020820190508181036000'' @
     ''83015261111d8184610fae565b905092915050565b600060208201905061113a600083018461'' @
     ''100c565b92915050565b600060208201905081810360008301526111598161101b565b905091'' @
     ''9050565b600060208201905081810360008301526111798161103e565b9050919050565b6000'' @
     ''602082019050818103600083015261119981611061565b9050919050565b6000602082019050'' @
     ''81810360008301526111b981611084565b9050919050565b6000602082019050818103600083'' @
     ''01526111d9816110a7565b9050919050565b60006020820190506111f560008301846110ca56'' @
     ''5b92915050565b600060208201905061121060008301846110d9565b92915050565b60008190'' @
     ''50602082019050919050565b600081519050919050565b6000602082019050919050565b6000'' @
     ''82825260208201905092915050565b600082825260208201905092915050565b600061126b82'' @
     ''611344565b915061127683611344565b9250827fffffffffffffffffffffffffffffffffffff'' @
     ''ffffffffffffffffffffffffffff038211156112ab576112aa61134e565b5b82820190509291'' @
     ''5050565b60006112c182611344565b91506112cc83611344565b9250828210156112df576112'' @
     ''de61134e565b5b828203905092915050565b60006112f582611324565b9050919050565b6000'' @
     ''8115159050919050565b60006fffffffffffffffffffffffffffffffff82169050919050565b'' @
     ''600073ffffffffffffffffffffffffffffffffffffffff82169050919050565b600081905091'' @
     ''9050565b7f4e487b710000000000000000000000000000000000000000000000000000000060'' @
     ''0052601160045260246000fd5b7f4e487b710000000000000000000000000000000000000000'' @
     ''0000000000000000600052603160045260246000fd5b7f4e487b710000000000000000000000'' @
     ''0000000000000000000000000000000000600052603260045260246000fd5b600080fd5b7f4f'' @
     ''6e6c79207374616b65722063616e2063616c6c2066756e6374696f6e00000060008201525056'' @
     ''5b7f56616c696461746f72207365742068617320726561636865642066756c6c206360008201'' @
     ''527f617061636974790000000000000000000000000000000000000000000000000060208201'' @
     ''5250565b7f696e646578206f7574206f662072616e6765000000000000000000000000000060'' @
     ''0082015250565b7f4f6e6c7920454f412063616e2063616c6c2066756e6374696f6e00000000'' @
     ''0000600082015250565b7f56616c696461746f72732063616e2774206265206c657373207468'' @
     ''616e20746860008201527f65206d696e696d756d2072657175697265642076616c696461746f'' @
     ''72206e756d602082015250565b611502816112ea565b811461150d57600080fd5b50565b6115'' @
     ''1981611344565b811461152457600080fd5b5056fea26469706673582212208a8aa21d6df013'' @
     ''84c9fc6d39a32e52ef1c0d18fd3bf9e2fca6ae1cae3d41268864736f6c63430008070033''"

text \<open>
  One iteration of the loop over the validators: \<open>indx\<close> and \<open>validator\<close> are the loop
  variables, the pair is the state the loop updates (\<^verbatim>\<open>stakedAmount\<close> and
  \<^verbatim>\<open>storageMap\<close>). The six writes are in the order of the source.
\<close>

definition loopBody ::
  "int \<Rightarrow> nat \<Rightarrow> Address \<Rightarrow> int \<times> (Hash \<rightharpoonup> Hash) \<Rightarrow> int \<times> (Hash \<rightharpoonup> Hash)" where
  "loopBody bigDefaultStakedBalance indx validator st =
     (let bigTrueValue = big_NewInt 1;
          stakedAmount = fst st + bigDefaultStakedBalance;
          storageIndexes = getStorageIndexes validator (of_nat indx);
          m1 = (snd st)(BytesToHash (ValidatorsIndex storageIndexes) \<mapsto>
                 BytesToHash validator);
          m2 = m1(BytesToHash (AddressToIsValidatorIndex storageIndexes) \<mapsto>
                 BytesToHash (big_Bytes bigTrueValue));
          m3 = m2(BytesToHash (AddressToStakedAmountIndex storageIndexes) \<mapsto>
                 StringToHash (hex_EncodeBig bigDefaultStakedBalance));
          m4 = m3(BytesToHash (AddressToValidatorIndexIndex storageIndexes) \<mapsto>
                 StringToHash (hex_EncodeUint64 (of_nat indx)));
          m5 = m4(BytesToHash (StakedAmountIndex storageIndexes) \<mapsto>
                 BytesToHash (big_Bytes stakedAmount));
          m6 = m5(BytesToHash (ValidatorsArraySizeIndex storageIndexes) \<mapsto>
                 StringToHash (hex_EncodeUint64 (of_nat (indx + 1))))
      in (stakedAmount, m6))"

fun validatorsLoop ::
  "int \<Rightarrow> nat \<Rightarrow> Address list \<Rightarrow> int \<times> (Hash \<rightharpoonup> Hash) \<Rightarrow> int \<times> (Hash \<rightharpoonup> Hash)" where
  "validatorsLoop bigDefaultStakedBalance indx [] st = st"
| "validatorsLoop bigDefaultStakedBalance indx (validator # validators) st =
     validatorsLoop bigDefaultStakedBalance (Suc indx) validators
       (loopBody bigDefaultStakedBalance indx validator st)"

text \<open>
  \<^verbatim>\<open>PredeployStakingSC\<close> returns a pair \<^verbatim>\<open>(*chain.GenesisAccount, error)\<close>; a nil pointer
  and a nil error are \<open>None\<close>.
\<close>

definition PredeployStakingSC ::
  "Address list \<Rightarrow> PredeployParams \<Rightarrow> GenesisAccount option \<times> error option" where
  "PredeployStakingSC validators params =
     (let scHex = fst (hex_DecodeHex StakingSCBytecode) in
      case ParseUint256orHex DefaultStakedBalance of
        Inl err \<Rightarrow> (None, Some (Errorf ''unable to generate DefaultStatkedBalance, '' err))
      | Inr bigDefaultStakedBalance \<Rightarrow>
          (let bigMinNumValidators = big_NewInt (MinValidatorCount params);
               bigMaxNumValidators = big_NewInt (MaxValidatorCount params);
               st = validatorsLoop bigDefaultStakedBalance 0 validators (0, Map.empty);
               stakedAmount = fst st;
               m1 = (snd st)(BytesToHash (big_Bytes (big_NewInt minNumValidatorSlot)) \<mapsto>
                      BytesToHash (big_Bytes bigMinNumValidators));
               m2 = m1(BytesToHash (big_Bytes (big_NewInt maxNumValidatorSlot)) \<mapsto>
                      BytesToHash (big_Bytes bigMaxNumValidators))
           in (Some \<lparr> Code = scHex, Storage = m2, Balance = stakedAmount \<rparr>, None)))"

text \<open>
  Modelled from the spec: how the consuming execution environment (the state package,
  not among the sources at hand) reads an unsigned integer from the storage map: a
  "map lookup miss" is "interpreted as false/zero", a stored value is a big-endian
  256-bit integer.
\<close>

definition storageUint :: "(Hash \<rightharpoonup> Hash) \<Rightarrow> Hash \<Rightarrow> nat" where
  "storageUint m k = (case m k of None \<Rightarrow> 0 | Some v \<Rightarrow> bytesNat v)"

subsection \<open>Contract artifacts\<close>

text \<open>
  A decoded JSON value (\<^verbatim>\<open>interface{}\<close> after \<^verbatim>\<open>json.Unmarshal\<close>); the payload of a
  number plays no role.
\<close>

datatype json =
    JNull
  | JBool bool
  | JNumber int
  | JString string
  | JArray "json list"
  | JObject "(string \<times> json) list"

text \<open>A Go value passed as constructor parameter: a slice of values, or any other value.\<close>

datatype 'v iface = IValue 'v | ISlice "'v iface list"

record contractArtifact =
  ABI :: "byte list"
  Bytecode :: "byte list"
  DeployedBytecode :: "byte list"

text \<open>
  Of \<^verbatim>\<open>abi.ABI\<close> the package reads \<^verbatim>\<open>Constructor.Inputs\<close>; \<^verbatim>\<open>Constructor\<close> is a pointer,
  nil for an ABI that declares no constructor. An ABI type is kept as its text.
\<close>

type_synonym abi_Type = string

record abi_Method =
  Inputs :: abi_Type

record abi_ABI =
  Constructor :: "abi_Method option"

record ForksInTime =
  Homestead :: bool
  Byzantium :: bool
  Constantinople :: bool
  Petersburg :: bool
  Istanbul :: bool
  EIP150 :: bool
  EIP158 :: bool
  EIP155 :: bool

text \<open>
  The collaborators of the artifact loader, which the package calls and does not
  implement: the file system, the JSON codec, the ABI codec, and the generation of a
  contract account by running the deployment bytecode on a fresh state. Each returns a
  value or an error. \<open>'f\<close> is the type of an open file, \<open>'v\<close> of a constructor argument.
\<close>

record ('f, 'v) collaborators =
  os_Open :: "string \<Rightarrow> error + 'f"
  ioutil_ReadAll :: "'f \<Rightarrow> error + byte list"
  json_Unmarshal :: "byte list \<Rightarrow> error + (string \<rightharpoonup> json)"
  json_Marshal :: "json \<Rightarrow> error + byte list"
  abi_NewABI :: "string \<Rightarrow> error + abi_ABI"
  abi_Encode :: "'v iface list \<Rightarrow> abi_Type \<Rightarrow> error + byte list"
  state_GenerateContractAccount ::
    "ForksInTime \<Rightarrow> Address \<Rightarrow> byte list \<Rightarrow> error + GenesisAccount option"
  AddrStakingContract :: Address

definition bytesToString :: "byte list \<Rightarrow> string" where
  "bytesToString bs = map (\<lambda>b. char_of (unat b)) bs"

text \<open>
  A method with a pointer receiver returns the updated artifact together with its
  \<^verbatim>\<open>error\<close> result.
\<close>

definition setABI ::
  "('f, 'v) collaborators \<Rightarrow> contractArtifact \<Rightarrow> (string \<rightharpoonup> json) \<Rightarrow>
   (contractArtifact \<times> error option) outcome" where
  "setABI env c jsonMap =
     (case jsonMap ''contractABI'' of
        None \<Rightarrow> Panics ''bad''
      | Some rawABI \<Rightarrow>
          (case json_Marshal env rawABI of
             Inl err \<Rightarrow> Returns (c, Some err)
           | Inr contractABI \<Rightarrow> Returns (c\<lparr>ABI := contractABI\<rparr>, None)))"

definition setBytecode ::
  "contractArtifact \<Rightarrow> (string \<rightharpoonup> json) \<Rightarrow> (contractArtifact \<times> error option) outcome" where
  "setBytecode c jsonMap =
     (case jsonMap ''bytecode'' of
        Some (JString rawBytecode) \<Rightarrow>
          (case hex_DecodeString (TrimPrefix rawBytecode ''0x'') of
             (bytecode, Some err) \<Rightarrow> Returns (c, Some err)
           | (bytecode, None) \<Rightarrow> Returns (c\<lparr>Bytecode := bytecode\<rparr>, None))
      | _ \<Rightarrow> Panics ''bad'')"

definition setDeployedBytecode ::
  "contractArtifact \<Rightarrow> (string \<rightharpoonup> json) \<Rightarrow> (contractArtifact \<times> error option) outcome" where
  "setDeployedBytecode c jsonMap =
     (case jsonMap ''deployedBytecode'' of
        Some (JString rawDeployedBytecode) \<Rightarrow>
          (case hex_DecodeString (TrimPrefix rawDeployedBytecode ''0x'') of
             (deployedBytecode, Some err) \<Rightarrow> Returns (c, Some err)
           | (deployedBytecode, None) \<Rightarrow>
               Returns (c\<lparr>DeployedBytecode := deployedBytecode\<rparr>, None))
      | _ \<Rightarrow> Panics ''bad '')"

definition loadFromFile ::
  "('f, 'v) collaborators \<Rightarrow> contractArtifact \<Rightarrow> string \<Rightarrow>
   (contractArtifact \<times> error option) outcome" where
  "loadFromFile env c filepath =
     (case os_Open env filepath of
        Inl err \<Rightarrow> Returns (c, Some err)
      | Inr file \<Rightarrow>
          (case ioutil_ReadAll env file of
             Inl err \<Rightarrow> Returns (c, Some err)
           | Inr bytes \<Rightarrow>
               (case json_Unmarshal env bytes of
                  Inl err \<Rightarrow> Returns (c, Some err)
                | Inr fileJSON \<Rightarrow>
                    (case setABI env c fileJSON of
                       Panics msg \<Rightarrow> Panics msg
                     | Returns (c1, Some err) \<Rightarrow> Returns (c1, Some err)
                     | Returns (c1, None) \<Rightarrow>
                         (case setBytecode c1 fileJSON of
                            Panics msg \<Rightarrow> Panics msg
                          | Returns (c2, Some err) \<Rightarrow> Returns (c2, Some err)
                          | Returns (c2, None) \<Rightarrow>
                              (case setDeployedBytecode c2 fileJSON of
                                 Panics msg \<Rightarrow> Panics msg
                               | Returns (c3, Some err) \<Rightarrow> Returns (c3, Some err)
                               | Returns (c3, None) \<Rightarrow> Returns (c3, None)))))))"

text \<open>
  \<^verbatim>\<open>encodeCustomConstructor\<close> has no error result: on a failure of the ABI parser or of
  the encoder it returns a nil slice. Reading \<^verbatim>\<open>Inputs\<close> through a nil \<^verbatim>\<open>Constructor\<close>
  is a nil pointer dereference.
\<close>

definition encodeCustomConstructor ::
  "('f, 'v) collaborators \<Rightarrow> contractArtifact \<Rightarrow> 'v iface list \<Rightarrow> byte list outcome" where
  "encodeCustomConstructor env c params =
     (case abi_NewABI env (bytesToString (ABI c)) of
        Inl err \<Rightarrow> Returns []
      | Inr contractABI \<Rightarrow>
          (case Constructor contractABI of
             None \<Rightarrow> Panics ''invalid memory address or nil pointer dereference''
           | Some method \<Rightarrow>
               (case abi_Encode env params (Inputs method) of
                  Inl err \<Rightarrow> Returns []
                | Inr constructor \<Rightarrow> Returns (Bytecode c @ constructor))))"

definition generateContractArtifact ::
  "('f, 'v) collaborators \<Rightarrow> string \<Rightarrow> (contractArtifact option \<times> error option) outcome" where
  "generateContractArtifact env filepath =
     (let artifact = \<lparr> ABI = [], Bytecode = [], DeployedBytecode = [] \<rparr> in
      case loadFromFile env artifact filepath of
        Panics msg \<Rightarrow> Panics msg
      | Returns (artifact', Some err) \<Rightarrow> Returns (None, Some err)
      | Returns (artifact', None) \<Rightarrow> Returns (Some artifact', None))"

text \<open>
  The caller passes its slice of constructor parameters as the single argument of the
  variadic \<^verbatim>\<open>encodeCustomConstructor\<close>, so the encoder receives a one-element list
  holding that slice.
\<close>

definition GenerateGenesisAccountFromFile ::
  "('f, 'v) collaborators \<Rightarrow> string \<Rightarrow> 'v iface list \<Rightarrow>
   (GenesisAccount option \<times> error option) outcome" where
  "GenerateGenesisAccountFromFile env filepath constructorParams =
     (case generateContractArtifact env filepath of
        Panics msg \<Rightarrow> Panics msg
      | Returns (_, Some err) \<Rightarrow> Returns (None, Some err)
      | Returns (None, None) \<Rightarrow> Panics ''invalid memory address or nil pointer dereference''
      | Returns (Some artifact, None) \<Rightarrow>
          (case encodeCustomConstructor env artifact [ISlice constructorParams] of
             Panics msg \<Rightarrow> Panics msg
           | Returns customBytecode \<Rightarrow>
               (let config = \<lparr> Homestead = True, Byzantium = True, Constantinople = True,
                                Petersburg = True, Istanbul = True, EIP150 = True,
                                EIP158 = True, EIP155 = True \<rparr>
                in case state_GenerateContractAccount env config (AddrStakingContract env)
                          customBytecode of
                     Inl err \<Rightarrow>
                       Returns (None, Some (Errorf ''unable to generate contract account - err: '' err))
                   | Inr contractAccount \<Rightarrow> Returns (contractAccount, None))))"


section \<open>Definitions used to state the properties\<close>

text \<open>
  The mapping-slot hasher as the specification words it: "left-pad the address to 32
  bytes, left-pad the big-endian byte representation of the slot number to 32 bytes,
  concatenate, hash". The slot number is a natural number there.
\<close>

definition leftPad32 :: "byte list \<Rightarrow> byte list" where
  "leftPad32 bs = replicate (32 - length bs) 0 @ bs"

definition mappingKey :: "Address \<Rightarrow> nat \<Rightarrow> byte list" where
  "mappingKey address declaredSlot = Keccak256 (leftPad32 address @ leftPad32 (natBytes declaredSlot))"

text \<open>The value of a list of hexadecimal digits, most significant first.\<close>

definition nibblesNat :: "nat list \<Rightarrow> nat" where
  "nibblesNat ds = foldl (\<lambda>acc d. acc * 16 + d) 0 ds"

text \<open>
  The hypothesis of collision freedom under which the snapshot of one validator is read
  back: the three keys that are hashes of the validator's address differ from each
  other and from the three other keys written in the same iteration.
\<close>

definition mappingKeysFresh :: "Address \<Rightarrow> int64 \<Rightarrow> bool" where
  "mappingKeysFresh validator index =
     (let storageIndexes = getStorageIndexes validator index;
          isValidatorKey = BytesToHash (AddressToIsValidatorIndex storageIndexes);
          stakedAmountKey = BytesToHash (AddressToStakedAmountIndex storageIndexes);
          validatorIndexKey = BytesToHash (AddressToValidatorIndexIndex storageIndexes);
          otherKeys = [BytesToHash (ValidatorsIndex storageIndexes),
                       BytesToHash (StakedAmountIndex storageIndexes),
                       BytesToHash (ValidatorsArraySizeIndex storageIndexes)]
      in distinct [isValidatorKey, stakedAmountKey, validatorIndexKey] \<and>
         isValidatorKey \<notin> set otherKeys \<and>
         stakedAmountKey \<notin> set otherKeys \<and>
         validatorIndexKey \<notin> set otherKeys)"

text \<open>The artifact a loader starts from, and the fork configuration the package passes.\<close>

definition noArtifact :: contractArtifact where
  "noArtifact = \<lparr> ABI = [], Bytecode = [], DeployedBytecode = [] \<rparr>"

definition allForks :: ForksInTime where
  "allForks = \<lparr> Homestead = True, Byzantium = True, Constantinople = True, Petersburg = True,
                 Istanbul = True, EIP150 = True, EIP158 = True, EIP155 = True \<rparr>"

text \<open>
  Test collaborators: a file system with one file, whose opening, reading and decoding
  have the given results; the ABI parser has the given result; encoding of arguments
  succeeds with no bytes; account generation succeeds for every bytecode with an
  account holding that code.
\<close>

definition testCollaborators ::
  "error + nat \<Rightarrow> error + byte list \<Rightarrow> error + (string \<rightharpoonup> json) \<Rightarrow> error + abi_ABI \<Rightarrow>
   (nat, nat) collaborators" where
  "testCollaborators opened contents decoded parsed =
     \<lparr> os_Open = (\<lambda>filepath. opened),
       ioutil_ReadAll = (\<lambda>file. contents),
       json_Unmarshal = (\<lambda>bytes. decoded),
       json_Marshal = (\<lambda>value. Inr []),
       abi_NewABI = (\<lambda>abi. parsed),
       abi_Encode = (\<lambda>params inputs. Inr []),
       state_GenerateContractAccount =
         (\<lambda>config address code. Inr (Some \<lparr> Code = code, Storage = Map.empty, Balance = 0 \<rparr>)),
       AddrStakingContract = replicate 18 0 @ [0x10, 0x01] \<rparr>"

definition goodArtifactJSON :: "string \<rightharpoonup> json" where
  "goodArtifactJSON =
     [''contractABI'' \<mapsto> JArray [], ''bytecode'' \<mapsto> JString ''0x6080'',
      ''deployedBytecode'' \<mapsto> JString ''0x6080'']"

text \<open>A readable file that decodes to the given JSON object.\<close>

definition artifactFile :: "(string \<rightharpoonup> json) \<Rightarrow> (nat, nat) collaborators" where
  "artifactFile decoded =
     testCollaborators (Inr 0) (Inr []) (Inr decoded) (Inr \<lparr> Constructor = None \<rparr>)"

section \<open>Big-endian bytes\<close>

lemma bytesNat_Nil: "bytesNat [] = 0"
  by (simp add: bytesNat_def)

lemma foldl_bytes_shift:
  "foldl (\<lambda>acc b. acc * 256 + unat (b :: byte)) a bs = a * 256 ^ length bs + foldl (\<lambda>acc b. acc * 256 + unat b) 0 bs"
proof (induction bs arbitrary: a)
  case Nil
  then show ?case by simp
next
  case (Cons b bs)
  have "foldl (\<lambda>acc b. acc * 256 + unat b) a (b # bs) = foldl (\<lambda>acc b. acc * 256 + unat b) (a * 256 + unat b) bs"
    by simp
  also have "\<dots> = (a * 256 + unat b) * 256 ^ length bs + foldl (\<lambda>acc b. acc * 256 + unat b) 0 bs"
    by (rule Cons.IH)
  also have "foldl (\<lambda>acc b. acc * 256 + unat b) 0 (b # bs) = unat b * 256 ^ length bs + foldl (\<lambda>acc b. acc * 256 + unat b) 0 bs"
    using Cons.IH [of "unat b"] by simp
  ultimately show ?case
    by (simp add: algebra_simps)
qed

lemma bytesNat_Cons: "bytesNat (b # bs) = unat b * 256 ^ length bs + bytesNat bs"
  using foldl_bytes_shift [of "unat b" bs] by (simp add: bytesNat_def)

lemma bytesNat_append: "bytesNat (xs @ ys) = bytesNat xs * 256 ^ length ys + bytesNat ys"
  by (induction xs) (simp_all add: bytesNat_Nil bytesNat_Cons power_add algebra_simps)

lemma bytesNat_snoc: "bytesNat (xs @ [b]) = bytesNat xs * 256 + unat b"
  by (simp add: bytesNat_append bytesNat_Cons bytesNat_Nil)

lemma bytesNat_replicate_zero: "bytesNat (replicate k 0) = 0"
  by (induction k) (simp_all add: bytesNat_Nil bytesNat_Cons)

lemma bytesNat_pad: "bytesNat (replicate k 0 @ bs) = bytesNat bs"
  by (simp add: bytesNat_append bytesNat_replicate_zero)

lemma bytesNat_less: "bytesNat bs < 256 ^ length bs"
proof (induction bs rule: rev_induct)
  case Nil
  then show ?case by (simp add: bytesNat_Nil)
next
  case (snoc b bs)
  have "unat b < 256"
    using unsigned_less [of b, where ?'a = nat] by simp
  with snoc show ?case
    by (simp add: bytesNat_snoc)
qed

lemma unat_byte_of_nat: "unat (of_nat (n mod 256) :: byte) = n mod 256"
  by (simp add: unat_of_nat)

lemma bytesNat_natBytes: "bytesNat (natBytes n) = n"
proof (induction n rule: natBytes.induct)
  case (1 n)
  show ?case
  proof (cases "n = 0")
    case True
    then show ?thesis by (simp add: natBytes.simps bytesNat_Nil)
  next
    case False
    then have "natBytes n = natBytes (n div 256) @ [of_nat (n mod 256)]"
      by (subst natBytes.simps) simp
    with 1 False show ?thesis
      by (simp add: bytesNat_snoc unat_byte_of_nat)
  qed
qed

lemma length_natBytes: "n < 256 ^ k \<Longrightarrow> length (natBytes n) \<le> k"
proof (induction n arbitrary: k rule: natBytes.induct)
  case (1 n)
  show ?case
  proof (cases "n = 0")
    case True
    then show ?thesis by (simp add: natBytes.simps)
  next
    case False
    then have eq: "natBytes n = natBytes (n div 256) @ [of_nat (n mod 256)]"
      by (subst natBytes.simps) simp
    from False "1.prems" obtain k' where k: "k = Suc k'"
      by (cases k) auto
    with "1.prems" have "n div 256 < 256 ^ k'"
      by (simp add: less_mult_imp_div_less mult.commute)
    with "1.IH" [OF False] have "length (natBytes (n div 256)) \<le> k'" .
    with eq k show ?thesis by simp
  qed
qed

lemma bytesNat_drop: "bytesNat (drop k bs) = bytesNat bs mod 256 ^ (length bs - k)"
proof -
  have "bytesNat bs = bytesNat (take k bs) * 256 ^ length (drop k bs) + bytesNat (drop k bs)"
    using bytesNat_append [of "take k bs" "drop k bs"] by simp
  moreover have "bytesNat (drop k bs) < 256 ^ length (drop k bs)"
    by (rule bytesNat_less)
  ultimately show ?thesis by simp
qed

lemma length_BytesToHash: "length (BytesToHash b) = 32"
  by (simp add: BytesToHash_def HashLength_def Let_def)

lemma bytesNat_BytesToHash: "bytesNat (BytesToHash b) = bytesNat b mod 2 ^ 256"
proof (cases "length b \<le> 32")
  case True
  have "bytesNat b < 256 ^ length b" by (rule bytesNat_less)
  also have "(256 :: nat) ^ length b \<le> 256 ^ 32"
    using True by (intro power_increasing) simp_all
  finally have "bytesNat b < 2 ^ 256" by simp
  with True show ?thesis
    by (simp add: BytesToHash_def HashLength_def Let_def bytesNat_pad min_def)
next
  case False
  then have "min (length b) 32 = 32" by simp
  then have "BytesToHash b = drop (length b - 32) b"
    by (simp add: BytesToHash_def HashLength_def Let_def)
  moreover have "length b - (length b - 32) = 32"
    using False by simp
  moreover have "(256 :: nat) ^ 32 = 2 ^ 256" by simp
  ultimately show ?thesis
    by (simp only: bytesNat_drop)
qed

lemma bytesNat_BytesToHash_small: "bytesNat b < 2 ^ 256 \<Longrightarrow> bytesNat (BytesToHash b) = bytesNat b"
  by (simp add: bytesNat_BytesToHash)

lemma BytesToHash_neq: "bytesNat a mod 2 ^ 256 \<noteq> bytesNat b mod 2 ^ 256 \<Longrightarrow> BytesToHash a \<noteq> BytesToHash b"
  using bytesNat_BytesToHash by metis

section \<open>Hexadecimal strings\<close>

lemma foldl_nibbles_shift:
  "foldl (\<lambda>acc d. acc * 16 + d) a ds = a * 16 ^ length ds + foldl (\<lambda>acc d. acc * 16 + d) (0 :: nat) ds"
proof (induction ds arbitrary: a)
  case Nil
  then show ?case by simp
next
  case (Cons d ds)
  show ?case
    using Cons.IH [of "a * 16 + d"] Cons.IH [of d] by (simp add: algebra_simps)
qed

lemma nibblesNat_Nil: "nibblesNat [] = 0"
  by (simp add: nibblesNat_def)

lemma nibblesNat_Cons: "nibblesNat (d # ds) = d * 16 ^ length ds + nibblesNat ds"
  using foldl_nibbles_shift [of d ds] by (simp add: nibblesNat_def)

lemma nibblesNat_snoc: "nibblesNat (ds @ [d]) = nibblesNat ds * 16 + d"
  by (simp add: nibblesNat_def)

lemma less_16_cases:
  "(d :: nat) < 16 \<Longrightarrow>
   d = 0 \<or> d = 1 \<or> d = 2 \<or> d = 3 \<or> d = 4 \<or> d = 5 \<or> d = 6 \<or> d = 7 \<or>
   d = 8 \<or> d = 9 \<or> d = 10 \<or> d = 11 \<or> d = 12 \<or> d = 13 \<or> d = 14 \<or> d = 15"
  by arith

lemma fromHexChar_hexDigit: "d < 16 \<Longrightarrow> fromHexChar (hexDigit d) = Some d"
  by (drule less_16_cases) (auto simp add: hexDigit_def fromHexChar_def)

lemma hexDigit_zero: "hexDigit 0 = CHR ''0''"
  by (simp add: hexDigit_def)

lemma hex_DecodeString_nibbles:
  "even (length ds) \<Longrightarrow> \<forall>d \<in> set ds. d < 16 \<Longrightarrow>
   \<exists>bs. hex_DecodeString (map hexDigit ds) = (bs, None) \<and> bytesNat bs = nibblesNat ds \<and>
        2 * length bs = length ds"
proof (induction ds rule: induct_list012)
  case 1
  then show ?case by (simp add: bytesNat_Nil nibblesNat_Nil)
next
  case (2 x)
  then show ?case by simp
next
  case (3 a b ds)
  then obtain bs where bs: "hex_DecodeString (map hexDigit ds) = (bs, None)"
      "bytesNat bs = nibblesNat ds" "2 * length bs = length ds"
    by auto
  from 3 have ab: "a < 16" "b < 16" by auto
  then have "a * 16 + b < 256" by arith
  then have u: "unat (of_nat (a * 16 + b) :: byte) = a * 16 + b"
    by (subst unat_of_nat) simp
  have "(256 :: nat) ^ length bs = (16 ^ 2) ^ length bs"
    by simp
  also have "\<dots> = 16 ^ (2 * length bs)"
    by (simp only: power_mult)
  finally have p: "(256 :: nat) ^ length bs = 16 ^ length ds"
    using bs(3) by simp
  have "hex_DecodeString (map hexDigit (a # b # ds)) = (of_nat (a * 16 + b) # bs, None)"
    using ab bs(1) by (simp add: fromHexChar_hexDigit)
  moreover have "bytesNat (of_nat (a * 16 + b) # bs) = nibblesNat (a # b # ds)"
    using bs(2) u p by (simp add: bytesNat_Cons nibblesNat_Cons algebra_simps)
  ultimately show ?case
    using bs(3) by simp
qed

lemma natHex_nibbles:
  "\<exists>ds. natHex n = map hexDigit ds \<and> (\<forall>d \<in> set ds. d < 16) \<and> nibblesNat ds = n"
proof (induction n rule: natHex.induct)
  case (1 n)
  show ?case
  proof (cases "n < 16")
    case True
    then have "natHex n = map hexDigit [n]"
      by (subst natHex.simps) simp
    with True show ?thesis
      by (intro exI [of _ "[n]"]) (simp add: nibblesNat_Cons nibblesNat_Nil)
  next
    case False
    then have eq: "natHex n = natHex (n div 16) @ [hexDigit (n mod 16)]"
      by (subst natHex.simps) simp
    from 1 False obtain ds where ds: "natHex (n div 16) = map hexDigit ds"
        "\<forall>d \<in> set ds. d < 16" "nibblesNat ds = n div 16"
      by auto
    show ?thesis
      using eq ds by (intro exI [of _ "ds @ [n mod 16]"]) (simp add: nibblesNat_snoc)
  qed
qed

lemma TrimPrefix_0x: "TrimPrefix (CHR ''0'' # CHR ''x'' # s) ''0x'' = s"
  by (simp add: TrimPrefix_def HasPrefix_def)

lemma bytesNat_stringToBytes_natHex:
  "bytesNat (stringToBytes (CHR ''0'' # CHR ''x'' # natHex n)) = n"
proof -
  obtain ds where ds: "natHex n = map hexDigit ds" "\<forall>d \<in> set ds. d < 16" "nibblesNat ds = n"
    using natHex_nibbles by blast
  show ?thesis
  proof (cases "length ds mod 2 = 1")
    case False
    then have "even (length ds)"
      by presburger
    with ds(2) obtain bs where "hex_DecodeString (map hexDigit ds) = (bs, None)"
        "bytesNat bs = nibblesNat ds"
      using hex_DecodeString_nibbles by blast
    with False ds show ?thesis
      by (simp add: stringToBytes_def TrimPrefix_0x Let_def)
  next
    case True
    then have "even (length (0 # ds))"
      by simp presburger
    moreover have "\<forall>d \<in> set (0 # ds). d < 16"
      using ds(2) by simp
    ultimately obtain bs where "hex_DecodeString (map hexDigit (0 # ds)) = (bs, None)"
        "bytesNat bs = nibblesNat (0 # ds)"
      using hex_DecodeString_nibbles by blast
    with True ds show ?thesis
      by (simp add: stringToBytes_def TrimPrefix_0x Let_def hexDigit_zero nibblesNat_Cons)
  qed
qed

lemma hashUint_EncodeUint64: "bytesNat (StringToHash (hex_EncodeUint64 w)) = unat w"
proof -
  have "unat w < 2 ^ 64"
    using unsigned_less [of w, where ?'a = nat] by simp
  also have "(2 :: nat) ^ 64 \<le> 2 ^ 256"
    by simp
  finally show ?thesis
    by (simp add: StringToHash_def hex_EncodeUint64_def bytesNat_BytesToHash
        bytesNat_stringToBytes_natHex)
qed

lemma hashUint_EncodeBig:
  "0 \<le> b \<Longrightarrow> b < 2 ^ 256 \<Longrightarrow> bytesNat (StringToHash (hex_EncodeBig b)) = nat b"
proof -
  assume b: "0 \<le> b" "b < 2 ^ 256"
  then have "nat b < 2 ^ 256"
    by (simp add: nat_less_iff)
  with b show ?thesis
    by (simp add: StringToHash_def hex_EncodeBig_def bytesNat_BytesToHash
        bytesNat_stringToBytes_natHex)
qed

section \<open>Slots, keys and the loop\<close>

lemma bytesNat_big_Bytes: "bytesNat (big_Bytes x) = nat \<bar>x\<bar>"
  by (simp add: big_Bytes_def bytesNat_natBytes)

lemma natBytes_zero: "natBytes 0 = []"
  by (simp add: natBytes.simps)

lemma sint_slot_numerals:
  "sint validatorsSlot = 0" "sint addressToIsValidatorSlot = 1"
  "sint addressToStakedAmountSlot = 2" "sint addressToValidatorIndexSlot = 3"
  "sint stakedAmountSlot = 4" "sint minNumValidatorSlot = 5" "sint maxNumValidatorSlot = 6"
  by (simp_all add: validatorsSlot_def addressToIsValidatorSlot_def addressToStakedAmountSlot_def
      addressToValidatorIndexSlot_def stakedAmountSlot_def minNumValidatorSlot_def
      maxNumValidatorSlot_def)

lemma hashUint_slot_keys:
  "bytesNat (BytesToHash (big_Bytes (big_NewInt stakedAmountSlot))) = 4"
  "bytesNat (BytesToHash (big_Bytes (big_NewInt minNumValidatorSlot))) = 5"
  "bytesNat (BytesToHash (big_Bytes (big_NewInt maxNumValidatorSlot))) = 6"
  "bytesNat (BytesToHash [ucast validatorsSlot]) = 0"
  by (simp_all add: bytesNat_BytesToHash bytesNat_big_Bytes big_NewInt_def sint_slot_numerals
      bytesNat_Cons bytesNat_Nil validatorsSlot_def)

lemma keys_neq:
  "bytesNat a \<noteq> bytesNat b \<Longrightarrow> a \<noteq> b"
  by auto

lemma bytesNat_getIndexWithOffset:
  "bytesNat (getIndexWithOffset keccakHash offset) = nat \<bar>int (bytesNat keccakHash) + sint offset\<bar>"
  by (simp add: getIndexWithOffset_def Let_def bytesNat_big_Bytes big_SetBytes_def big_NewInt_def)

lemma PadLeftOrTrim_short:
  "length bb \<le> n \<Longrightarrow> PadLeftOrTrim bb n = replicate (n - length bb) 0 @ bb"
  by (simp add: PadLeftOrTrim_def Let_def)

lemma length_PadLeftOrTrim: "length (PadLeftOrTrim bb n) = n"
  by (simp add: PadLeftOrTrim_def Let_def)

lemma validatorsSlot_preimage:
  "PadLeftOrTrim (big_Bytes (big_NewInt validatorsSlot)) 32 = replicate 32 0"
  by (simp add: PadLeftOrTrim_def Let_def big_Bytes_def big_NewInt_def sint_slot_numerals natBytes_zero)

lemma ParseUint256orHex_DefaultStakedBalance:
  "ParseUint256orHex DefaultStakedBalance = Inr 10000000000000000000"
  by (simp add: ParseUint256orHex_def DefaultStakedBalance_def HasPrefix_def big_SetString_def
      digitVal_def)

lemma validatorsLoop_append:
  "validatorsLoop s i (xs @ ys) st = validatorsLoop s (i + length xs) ys (validatorsLoop s i xs st)"
  by (induction xs arbitrary: i st) simp_all

lemma fst_loopBody: "fst (loopBody s i v st) = fst st + s"
  by (simp add: loopBody_def Let_def)

lemma fst_validatorsLoop: "fst (validatorsLoop s i vs st) = fst st + int (length vs) * s"
  by (induction vs arbitrary: i st) (simp_all add: fst_loopBody algebra_simps)

lemma validatorsLoop_take_Suc:
  "i < length vs \<Longrightarrow>
   validatorsLoop s 0 (take (Suc i) vs) st = loopBody s i (vs ! i) (validatorsLoop s 0 (take i vs) st)"
  by (simp add: take_Suc_conv_app_nth validatorsLoop_append)

lemma Keccak256_length: "length (Keccak256 m) = 32"
  by (cases "absorb zeroState (pad101 m)" rule: lanesOfKstate.cases)
     (auto simp add: Keccak256_def squeeze_def bytesOfLane_def)

lemma sint_of_nat_index: "i < 2 ^ 63 \<Longrightarrow> sint (of_nat i :: int64) = int i"
  by (simp add: signed_of_nat signed_take_bit_int_eq_self)

lemma sint_small_count: "unat (c :: uint64) \<le> 2 ^ 63 - 1 \<Longrightarrow> sint c = int (unat c)"
proof -
  assume "unat c \<le> 2 ^ 63 - 1"
  then have "nat (uint c) \<le> 9223372036854775807"
    by (simp only: unat_eq_nat_uint) simp
  then have "uint c < 2 ^ 63"
    by (simp only: nat_le_iff) simp
  moreover have "0 \<le> uint c"
    by simp
  moreover have "- (2 ^ 63) \<le> (0 :: int)"
    by simp
  ultimately have "signed_take_bit 63 (uint c) = uint c"
    by (intro signed_take_bit_int_eq_self) linarith+
  then show ?thesis
    by (simp add: sint_uint)
qed

lemma length_big_Bytes_int64: "length (big_Bytes (big_NewInt slot)) \<le> 8"
proof -
  have "- (2 ^ 63) \<le> sint slot" "sint slot < 2 ^ 63"
    using sint_ge [of slot] sint_lt [of slot] by simp_all
  then have "nat \<bar>sint slot\<bar> < 256 ^ 8"
    by simp
  then show ?thesis
    unfolding big_Bytes_def big_NewInt_def by (rule length_natBytes)
qed


section \<open>The builder and its loop\<close>

lemma scalar_keys_distinct:
  "BytesToHash (big_Bytes (big_NewInt stakedAmountSlot)) \<noteq> BytesToHash [ucast validatorsSlot]"
  "BytesToHash (big_Bytes (big_NewInt minNumValidatorSlot)) \<noteq> BytesToHash [ucast validatorsSlot]"
  "BytesToHash (big_Bytes (big_NewInt maxNumValidatorSlot)) \<noteq> BytesToHash [ucast validatorsSlot]"
  "BytesToHash (big_Bytes (big_NewInt minNumValidatorSlot)) \<noteq>
     BytesToHash (big_Bytes (big_NewInt stakedAmountSlot))"
  "BytesToHash (big_Bytes (big_NewInt maxNumValidatorSlot)) \<noteq>
     BytesToHash (big_Bytes (big_NewInt stakedAmountSlot))"
  "BytesToHash (big_Bytes (big_NewInt maxNumValidatorSlot)) \<noteq>
     BytesToHash (big_Bytes (big_NewInt minNumValidatorSlot))"
  by (rule keys_neq, simp add: hashUint_slot_keys)+

lemma PredeployStakingSC_result:
  "PredeployStakingSC validators params =
     (Some \<lparr> Code = fst (hex_DecodeHex StakingSCBytecode),
             Storage = (snd (validatorsLoop 10000000000000000000 0 validators (0, Map.empty)))
               (BytesToHash (big_Bytes (big_NewInt minNumValidatorSlot)) \<mapsto>
                  BytesToHash (big_Bytes (big_NewInt (MinValidatorCount params))),
                BytesToHash (big_Bytes (big_NewInt maxNumValidatorSlot)) \<mapsto>
                  BytesToHash (big_Bytes (big_NewInt (MaxValidatorCount params)))),
             Balance = fst (validatorsLoop 10000000000000000000 0 validators (0, Map.empty)) \<rparr>,
      None)"
  by (simp add: PredeployStakingSC_def ParseUint256orHex_DefaultStakedBalance Let_def)

lemma hashUint_count:
  "bytesNat (BytesToHash (big_Bytes (big_NewInt c))) = nat \<bar>sint c\<bar>"
proof -
  have "- (2 ^ 63) \<le> sint c" "sint c < 2 ^ 63"
    using sint_ge [of c] sint_lt [of c] by simp_all
  then have "nat \<bar>sint c\<bar> < 2 ^ 256"
    by simp
  then show ?thesis
    by (simp add: bytesNat_BytesToHash bytesNat_big_Bytes big_NewInt_def)
qed

text \<open>
  The value stored for a count is the absolute value of the count read as an
  \<^verbatim>\<open>int64\<close>; for a count above \<open>2 ^ 63\<close> it is not the count.
\<close>

lemma min_count_stored_value:
  "\<exists>account. PredeployStakingSC validators params = (Some account, None) \<and>
     map_option bytesNat (Storage account (BytesToHash (big_Bytes (big_NewInt minNumValidatorSlot)))) =
       Some (nat \<bar>sint (MinValidatorCount params)\<bar>) \<and>
     map_option bytesNat (Storage account (BytesToHash (big_Bytes (big_NewInt maxNumValidatorSlot)))) =
       Some (nat \<bar>sint (MaxValidatorCount params)\<bar>)"
  using scalar_keys_distinct
  by (simp add: PredeployStakingSC_result hashUint_count)

lemma count_above_int64_not_stored:
  assumes "2 ^ 63 < unat (c :: uint64)"
  shows "bytesNat (BytesToHash (big_Bytes (big_NewInt c))) \<noteq> unat c"
proof
  assume "bytesNat (BytesToHash (big_Bytes (big_NewInt c))) = unat c"
  then have eq: "nat \<bar>sint c\<bar> = unat c"
    by (simp only: hashUint_count)
  have "int (2 ^ 63) < int (unat c)"
    using assms by (simp only: of_nat_less_iff)
  then have gt: "2 ^ 63 < uint c"
    by simp
  have m: "uint c = sint c mod 2 ^ 64"
    by (simp add: uint_sint take_bit_eq_mod)
  have r: "- (2 ^ 63) \<le> sint c" "sint c < 2 ^ 63"
    using sint_ge [of c] sint_lt [of c] by simp_all
  have "int (nat \<bar>sint c\<bar>) = int (unat c)"
    using eq by simp
  then have a: "\<bar>sint c\<bar> = uint c"
    by simp
  show False
  proof (cases "0 \<le> sint c")
    case True
    with r have "sint c mod 2 ^ 64 = sint c"
      by simp
    with m r gt show False
      by simp
  next
    case False
    have "(sint c + 2 ^ 64) mod 2 ^ 64 = sint c + 2 ^ 64"
      using False r by (intro mod_pos_pos_trivial) simp_all
    then have "sint c mod 2 ^ 64 = sint c + 2 ^ 64"
      by simp
    with m a False gt show False
      by simp
  qed
qed

lemma stored_count_iff:
  "bytesNat (BytesToHash (big_Bytes (big_NewInt c))) = unat c \<longleftrightarrow> unat c \<le> 2 ^ 63"
proof (cases "unat c \<le> 2 ^ 63 - 1")
  case True
  then have "sint c = int (unat c)"
    by (rule sint_small_count)
  with True show ?thesis
    by (simp add: hashUint_count)
next
  case False
  show ?thesis
  proof (cases "unat c = 2 ^ 63")
    case True
    then have "of_nat (unat c) = (of_nat (2 ^ 63) :: uint64)"
      by simp
    then have "c = 0x8000000000000000"
      by simp
    then show ?thesis
      by (simp add: hashUint_count)
  next
    case neq: False
    with False have "2 ^ 63 < unat c"
      by simp
    then have "bytesNat (BytesToHash (big_Bytes (big_NewInt c))) \<noteq> unat c"
      by (rule count_above_int64_not_stored)
    with neq False show ?thesis
      by simp
  qed
qed

section \<open>Digests computed by the hash function\<close>

text \<open>
  A message shorter than 135 bytes is absorbed in one block. The digests below are
  computed by rewriting with the definitions of the permutation; the first is the
  well-known Keccak-256 digest of 32 zero bytes, the slot of element 0 of the array
  declared at slot 0.
\<close>

lemma push_bit_take_bit_lane: "push_bit n (take_bit (64 - n) w) = push_bit n (w :: lane)"
  by (rule bit_eqI) (auto simp add: bit_simps)

lemma rotl64_eval: "rotl64 n w = push_bit n (take_bit (64 - n) w) OR drop_bit (64 - n) w"
  by (simp add: rotl64_def push_bit_take_bit_lane)

lemma absorb_one_block: "length bs = 136 \<Longrightarrow> absorb st bs = absorbBlock st bs"
  by (simp add: absorb.simps)

lemma Keccak256_32_bytes:
  "length m = 32 \<Longrightarrow>
   Keccak256 m = squeeze (absorbBlock zeroState (m @ 0x01 # replicate 102 0 @ [0x80]))"
  by (simp add: Keccak256_def pad101_def absorb_one_block)

lemma Keccak256_64_bytes:
  "length m = 64 \<Longrightarrow>
   Keccak256 m = squeeze (absorbBlock zeroState (m @ 0x01 # replicate 70 0 @ [0x80]))"
  by (simp add: Keccak256_def pad101_def absorb_one_block)

lemma replicate_numeral_eval: "replicate (numeral v) x = x # replicate (numeral v - 1) x"
  by (simp add: numeral_eq_Suc)

lemmas keccak_eval =
  replicate_numeral_eval absorbBlock_def zeroState_def kstateOfLanes_def planeOfLanes_def
  keccakF_def roundConstants_def keccakRound_def theta_def rotl64_eval squeeze_def
  bytesOfLane_def

lemma Keccak256_zero32:
  "Keccak256 (replicate 32 0) =
     [41, 13, 236, 217, 84, 139, 98, 168, 214, 3, 69, 169, 136, 56, 111, 200,
      75, 166, 188, 149, 72, 64, 8, 246, 54, 47, 147, 22, 14, 243, 229, 99]"
  by (simp add: Keccak256_32_bytes keccak_eval)

lemma hashUint_validatorsSlot_hash:
  "bytesNat (Keccak256 (replicate 32 0)) =
     18569430475105882587588266137607568536673111973893317399460219858819262702947"
  by (simp add: Keccak256_zero32 bytesNat_Cons bytesNat_Nil)

lemma hashUint_ValidatorsIndex:
  assumes "i < 2 ^ 63"
  shows "bytesNat (BytesToHash (ValidatorsIndex (getStorageIndexes validator (of_nat i)))) =
           18569430475105882587588266137607568536673111973893317399460219858819262702947 + i"
proof -
  have "bytesNat (ValidatorsIndex (getStorageIndexes validator (of_nat i))) =
          18569430475105882587588266137607568536673111973893317399460219858819262702947 + i"
    using assms
    by (simp add: getStorageIndexes_def bytesNat_getIndexWithOffset validatorsSlot_preimage
        hashUint_validatorsSlot_hash sint_of_nat_index nat_add_distrib)
  moreover have "18569430475105882587588266137607568536673111973893317399460219858819262702947 + i
      < (2 :: nat) ^ 256"
    using assms by simp
  ultimately show ?thesis
    by (simp add: bytesNat_BytesToHash)
qed

lemma ValidatorsIndex_not_scalar:
  assumes "i < 2 ^ 63"
  shows "BytesToHash (ValidatorsIndex (getStorageIndexes validator (of_nat i))) \<noteq>
           BytesToHash (big_Bytes (big_NewInt stakedAmountSlot))"
    and "BytesToHash (ValidatorsIndex (getStorageIndexes validator (of_nat i))) \<noteq>
           BytesToHash [ucast validatorsSlot]"
  by (rule keys_neq, simp add: hashUint_ValidatorsIndex [OF assms] hashUint_slot_keys)+

lemma loopBody_writes:
  "snd (loopBody s i v st) =
     (snd st)
       (BytesToHash (ValidatorsIndex (getStorageIndexes v (of_nat i))) \<mapsto> BytesToHash v,
        BytesToHash (AddressToIsValidatorIndex (getStorageIndexes v (of_nat i))) \<mapsto>
          BytesToHash (big_Bytes (big_NewInt 1)),
        BytesToHash (AddressToStakedAmountIndex (getStorageIndexes v (of_nat i))) \<mapsto>
          StringToHash (hex_EncodeBig s),
        BytesToHash (AddressToValidatorIndexIndex (getStorageIndexes v (of_nat i))) \<mapsto>
          StringToHash (hex_EncodeUint64 (of_nat i)),
        BytesToHash (big_Bytes (big_NewInt stakedAmountSlot)) \<mapsto>
          BytesToHash (big_Bytes (fst st + s)),
        BytesToHash [ucast validatorsSlot] \<mapsto>
          StringToHash (hex_EncodeUint64 (of_nat (Suc i))))"
  by (simp add: loopBody_def Let_def getStorageIndexes_def)

lemma loopBody_total_stake:
  "snd (loopBody s i v st) (BytesToHash (big_Bytes (big_NewInt stakedAmountSlot))) =
     Some (BytesToHash (big_Bytes (fst st + s)))"
  using scalar_keys_distinct(1) by (simp add: loopBody_writes)

lemma validatorsLoop_total_stake:
  "vs \<noteq> [] \<Longrightarrow>
   snd (validatorsLoop s i vs st) (BytesToHash (big_Bytes (big_NewInt stakedAmountSlot))) =
     Some (BytesToHash (big_Bytes (fst st + int (length vs) * s)))"
proof (induction vs arbitrary: i st)
  case Nil
  then show ?case by simp
next
  case (Cons v vs)
  show ?case
  proof (cases "vs = []")
    case True
    then show ?thesis
      by (simp add: loopBody_total_stake)
  next
    case False
    from Cons.IH [OF False, of "Suc i" "loopBody s i v st"] show ?thesis
      by (simp add: fst_loopBody algebra_simps)
  qed
qed


lemma getStorageIndexes_scalar_fields:
  "StakedAmountIndex (getStorageIndexes v x) = big_Bytes (big_NewInt stakedAmountSlot)"
  "ValidatorsArraySizeIndex (getStorageIndexes v x) = [ucast validatorsSlot]"
  by (simp_all add: getStorageIndexes_def)

lemma BytesToHash_address: "length v = 20 \<Longrightarrow> BytesToHash v = replicate 12 0 @ v"
  by (simp add: BytesToHash_def HashLength_def Let_def)

lemma unat_of_nat_index: "n < 2 ^ 64 \<Longrightarrow> unat (of_nat n :: uint64) = n"
  by (simp add: unat_of_nat)


lemma natBytes_small: "0 < n \<Longrightarrow> n < 256 \<Longrightarrow> natBytes n = [of_nat n]"
  by (subst natBytes.simps) (simp add: natBytes_zero)

lemma BytesToHash_32: "length b = 32 \<Longrightarrow> BytesToHash b = b"
  by (simp add: BytesToHash_def HashLength_def Let_def)

lemma mapping_buffer:
  "0 < sint slot \<Longrightarrow> sint slot < 256 \<Longrightarrow>
   PadLeftOrTrim (replicate 20 b) 32 @ PadLeftOrTrim (big_Bytes (big_NewInt slot)) 32 =
     replicate 12 0 @ replicate 20 b @ replicate 31 0 @ [of_nat (nat (sint slot))]"
  by (simp add: PadLeftOrTrim_def Let_def big_Bytes_def big_NewInt_def natBytes_small)

lemma Keccak256_isValidator_buffer:
  "Keccak256 (replicate 12 0 @ replicate 20 0x22 @ replicate 31 0 @ [1]) =
     [198, 17, 251, 55, 39, 85, 222, 144, 242, 71, 114, 183, 199, 77, 197, 37,
      119, 148, 20, 193, 94, 80, 79, 205, 151, 75, 105, 133, 132, 2, 206, 26]"
  by (simp add: Keccak256_64_bytes keccak_eval)

lemma getAddressMapping_isValidator:
  "getAddressMapping (replicate 20 0x22) addressToIsValidatorSlot =
     [198, 17, 251, 55, 39, 85, 222, 144, 242, 71, 114, 183, 199, 77, 197, 37,
      119, 148, 20, 193, 94, 80, 79, 205, 151, 75, 105, 133, 132, 2, 206, 26]"
  using mapping_buffer [of addressToIsValidatorSlot "0x22"]
  by (simp add: getAddressMapping_def Let_def sint_slot_numerals Keccak256_isValidator_buffer)

lemma hashUint_isValidator_key:
  "bytesNat (BytesToHash (getAddressMapping (replicate 20 0x22) addressToIsValidatorSlot)) =
     89589714244860592553322882010966462179873928318363682697481379582773569965594"
  by (simp add: getAddressMapping_isValidator BytesToHash_32 bytesNat_Cons bytesNat_Nil)

lemma Keccak256_stakedAmount_buffer:
  "Keccak256 (replicate 12 0 @ replicate 20 0x22 @ replicate 31 0 @ [2]) =
     [116, 180, 131, 3, 182, 104, 201, 150, 192, 155, 97, 13, 175, 47, 83, 248,
      52, 72, 221, 21, 185, 172, 87, 233, 232, 251, 31, 242, 247, 69, 199, 29]"
  by (simp add: Keccak256_64_bytes keccak_eval)

lemma getAddressMapping_stakedAmount:
  "getAddressMapping (replicate 20 0x22) addressToStakedAmountSlot =
     [116, 180, 131, 3, 182, 104, 201, 150, 192, 155, 97, 13, 175, 47, 83, 248,
      52, 72, 221, 21, 185, 172, 87, 233, 232, 251, 31, 242, 247, 69, 199, 29]"
  using mapping_buffer [of addressToStakedAmountSlot "0x22"]
  by (simp add: getAddressMapping_def Let_def sint_slot_numerals Keccak256_stakedAmount_buffer)

lemma hashUint_stakedAmount_key:
  "bytesNat (BytesToHash (getAddressMapping (replicate 20 0x22) addressToStakedAmountSlot)) =
     52787227136180223938941293834479503069351507567835314719099400756092754839325"
  by (simp add: getAddressMapping_stakedAmount BytesToHash_32 bytesNat_Cons bytesNat_Nil)

lemma Keccak256_validatorIndex_buffer:
  "Keccak256 (replicate 12 0 @ replicate 20 0x22 @ replicate 31 0 @ [3]) =
     [83, 175, 66, 208, 168, 191, 89, 3, 236, 188, 21, 155, 162, 246, 224, 250,
      45, 192, 22, 91, 254, 145, 26, 206, 49, 22, 119, 197, 98, 17, 66, 118]"
  by (simp add: Keccak256_64_bytes keccak_eval)

lemma getAddressMapping_validatorIndex:
  "getAddressMapping (replicate 20 0x22) addressToValidatorIndexSlot =
     [83, 175, 66, 208, 168, 191, 89, 3, 236, 188, 21, 155, 162, 246, 224, 250,
      45, 192, 22, 91, 254, 145, 26, 206, 49, 22, 119, 197, 98, 17, 66, 118]"
  using mapping_buffer [of addressToValidatorIndexSlot "0x22"]
  by (simp add: getAddressMapping_def Let_def sint_slot_numerals Keccak256_validatorIndex_buffer)

lemma hashUint_validatorIndex_key:
  "bytesNat (BytesToHash (getAddressMapping (replicate 20 0x22) addressToValidatorIndexSlot)) =
     37851625809446303322257687622509974390739185313493077215193113144761984828022"
  by (simp add: getAddressMapping_validatorIndex BytesToHash_32 bytesNat_Cons bytesNat_Nil)

lemma mappingKeysFresh_example: "mappingKeysFresh (replicate 20 0x22) (of_nat 1)"
proof -
  have i: "(1 :: nat) < 2 ^ 63"
    by simp
  have arr: "bytesNat (BytesToHash (ValidatorsIndex (getStorageIndexes (replicate 20 0x22) 1))) =
      18569430475105882587588266137607568536673111973893317399460219858819262702948"
    using hashUint_ValidatorsIndex [OF i, of "replicate 20 0x22"] by simp
  note vals = hashUint_isValidator_key hashUint_stakedAmount_key hashUint_validatorIndex_key
    arr hashUint_slot_keys
  have "BytesToHash (getAddressMapping (replicate 20 0x22) addressToIsValidatorSlot) \<noteq>
        BytesToHash (getAddressMapping (replicate 20 0x22) addressToStakedAmountSlot)"
    by (rule keys_neq) (simp add: vals)
  moreover have "BytesToHash (getAddressMapping (replicate 20 0x22) addressToIsValidatorSlot) \<noteq>
        BytesToHash (getAddressMapping (replicate 20 0x22) addressToValidatorIndexSlot)"
    by (rule keys_neq) (simp add: vals)
  moreover have "BytesToHash (getAddressMapping (replicate 20 0x22) addressToStakedAmountSlot) \<noteq>
        BytesToHash (getAddressMapping (replicate 20 0x22) addressToValidatorIndexSlot)"
    by (rule keys_neq) (simp add: vals)
  moreover have "BytesToHash (getAddressMapping (replicate 20 0x22) slot) \<noteq>
        BytesToHash (ValidatorsIndex (getStorageIndexes (replicate 20 0x22) (of_nat 1))) \<and>
      BytesToHash (getAddressMapping (replicate 20 0x22) slot) \<noteq>
        BytesToHash (big_Bytes (big_NewInt stakedAmountSlot)) \<and>
      BytesToHash (getAddressMapping (replicate 20 0x22) slot) \<noteq>
        BytesToHash [ucast validatorsSlot]"
    if "slot = addressToIsValidatorSlot \<or> slot = addressToStakedAmountSlot \<or>
        slot = addressToValidatorIndexSlot" for slot
    using that by (auto intro!: keys_neq simp add: vals)
  ultimately show ?thesis
    by (simp add: mappingKeysFresh_def Let_def getStorageIndexes_scalar_fields)
       (simp add: getStorageIndexes_def)
qed

section \<open>The mapping-slot hasher\<close>

text \<open>
  Claim C1. For every 20-byte address and every declared (non-negative) slot,
  \<open>getAddressMapping\<close> returns the Keccak-256 digest of the 64-byte buffer made of the
  address left-padded to 32 bytes and the big-endian bytes of the slot left-padded to 32
  bytes, and the digest has 32 bytes. The function is total: it has no error result.
\<close>

theorem getAddressMapping_refines_mappingKey:
  assumes "length address = 20" and "0 \<le> sint slot"
  shows "getAddressMapping address slot = mappingKey address (nat (sint slot)) \<and>
         length (leftPad32 address @ leftPad32 (natBytes (nat (sint slot)))) = 64 \<and>
         length (getAddressMapping address slot) = 32"
proof -
  have a: "PadLeftOrTrim address 32 = leftPad32 address"
    using assms(1) by (simp add: PadLeftOrTrim_short leftPad32_def)
  have len: "length (big_Bytes (big_NewInt slot)) \<le> 32"
    using length_big_Bytes_int64 [of slot] by simp
  have b: "big_Bytes (big_NewInt slot) = natBytes (nat (sint slot))"
    using assms(2) by (simp add: big_Bytes_def big_NewInt_def)
  have s: "PadLeftOrTrim (big_Bytes (big_NewInt slot)) 32 = leftPad32 (natBytes (nat (sint slot)))"
    using len by (simp add: PadLeftOrTrim_short leftPad32_def b)
  have "length (leftPad32 address @ leftPad32 (natBytes (nat (sint slot)))) = 64"
    using assms(1) len by (simp add: leftPad32_def b)
  then show ?thesis
    by (simp add: getAddressMapping_def mappingKey_def Let_def a s Keccak256_length)
qed

theorem getAddressMapping_refines_mappingKey_witness:
  "length (replicate 20 (0x22 :: byte)) = 20 \<and> 0 \<le> sint addressToIsValidatorSlot \<and>
   getAddressMapping (replicate 20 0x22) addressToIsValidatorSlot =
     mappingKey (replicate 20 0x22) (nat (sint addressToIsValidatorSlot)) \<and>
   length (getAddressMapping (replicate 20 0x22) addressToIsValidatorSlot) = 32"
proof -
  have h1: "length (replicate 20 (0x22 :: byte)) = 20"
    by simp
  have h2: "0 \<le> sint addressToIsValidatorSlot"
    by (simp add: sint_slot_numerals)
  from getAddressMapping_refines_mappingKey [OF h1 h2] h1 h2 show ?thesis
    by blast
qed

section \<open>The array-slot hasher\<close>

text \<open>
  Claim C3. The key of element \<open>i\<close> of the validators array, read as an unsigned integer,
  is the hash of the padded slot plus \<open>i\<close>: it is strictly increasing in the element index,
  and the keys of two consecutive indices differ by exactly 1. Element indices are
  non-negative \<^verbatim>\<open>int64\<close> values.
\<close>

theorem arrayElementKey_consecutive:
  assumes "0 \<le> sint i" and "sint i < sint j"
  shows "bytesNat (ValidatorsIndex (getStorageIndexes address i)) =
           bytesNat (Keccak256 (PadLeftOrTrim (big_Bytes (big_NewInt validatorsSlot)) 32)) + nat (sint i) \<and>
         bytesNat (ValidatorsIndex (getStorageIndexes address i)) <
           bytesNat (ValidatorsIndex (getStorageIndexes address j)) \<and>
         (sint i < 2 ^ 63 - 1 \<longrightarrow>
           bytesNat (ValidatorsIndex (getStorageIndexes address (i + 1))) -
           bytesNat (ValidatorsIndex (getStorageIndexes address i)) = 1)"
proof -
  have "sint i + 1 < 2 ^ 63" if "sint i < 2 ^ 63 - 1"
    using that by simp
  then have "sint (i + 1) = sint i + 1" if "sint i < 2 ^ 63 - 1"
    using that assms(1) by (simp add: sint_word_ariths signed_take_bit_int_eq_self)
  with assms show ?thesis
    by (auto simp add: getStorageIndexes_def bytesNat_getIndexWithOffset nat_add_distrib)
qed

theorem arrayElementKey_consecutive_witness:
  "0 \<le> sint (0 :: int64) \<and> sint (0 :: int64) < sint (1 :: int64) \<and>
   sint (0 :: int64) < 2 ^ 63 - 1 \<and>
   bytesNat (ValidatorsIndex (getStorageIndexes (replicate 20 0x22) 0)) =
     bytesNat (Keccak256 (PadLeftOrTrim (big_Bytes (big_NewInt validatorsSlot)) 32)) +
     nat (sint (0 :: int64)) \<and>
   bytesNat (ValidatorsIndex (getStorageIndexes (replicate 20 0x22) 0)) <
     bytesNat (ValidatorsIndex (getStorageIndexes (replicate 20 0x22) 1)) \<and>
   bytesNat (ValidatorsIndex (getStorageIndexes (replicate 20 0x22) (0 + 1))) -
     bytesNat (ValidatorsIndex (getStorageIndexes (replicate 20 0x22) 0)) = 1"
proof -
  have h1: "0 \<le> sint (0 :: int64)"
    by simp
  have h2: "sint (0 :: int64) < sint (1 :: int64)"
    by simp
  have h3: "sint (0 :: int64) < 2 ^ 63 - 1"
    by simp
  from arrayElementKey_consecutive [OF h1 h2, of "replicate 20 0x22"] h1 h2 h3 show ?thesis
    by blast
qed

section \<open>The genesis storage builder\<close>

text \<open>
  Claim C2. In \<open>PredeployStakingSC\<close> the per-validator stake is the parsed
  \<open>DefaultStakedBalance\<close>, that is 10000000000000000000, and the state after the loop has
  processed the validator at position \<open>i\<close> is the loop run on the first \<open>i + 1\<close> validators.
  In that state the storage map holds: at the array-length key \<open>i + 1\<close>, at the
  cumulative-stake key \<open>(i + 1)\<close> times the stake, at the validator's index-mapping key \<open>i\<close>,
  at its is-validator key 1 (true), at its staked-amount key the stake, and at its
  array-element key its address (left-padded to 32 bytes). This holds for every prefix
  of every list of 20-byte addresses, provided the keys that are hashes of the
  validator's address collide with no other key of the validator.
\<close>

theorem snapshot_after_each_validator:
  assumes "i < length validators" and "length validators < 2 ^ 63"
    and "length (validators ! i) = 20"
    and "mappingKeysFresh (validators ! i) (of_nat i)"
  shows "let storageMap = snd (validatorsLoop 10000000000000000000 0 (take (Suc i) validators)
                                 (0, Map.empty));
             storageIndexes = getStorageIndexes (validators ! i) (of_nat i)
         in map_option bytesNat (storageMap (BytesToHash (ValidatorsArraySizeIndex storageIndexes))) =
              Some (i + 1) \<and>
            map_option bytesNat (storageMap (BytesToHash (StakedAmountIndex storageIndexes))) =
              Some ((i + 1) * 10000000000000000000) \<and>
            map_option bytesNat (storageMap (BytesToHash (AddressToValidatorIndexIndex storageIndexes))) =
              Some i \<and>
            map_option bytesNat (storageMap (BytesToHash (AddressToIsValidatorIndex storageIndexes))) =
              Some 1 \<and>
            map_option bytesNat (storageMap (BytesToHash (AddressToStakedAmountIndex storageIndexes))) =
              Some 10000000000000000000 \<and>
            storageMap (BytesToHash (ValidatorsIndex storageIndexes)) =
              Some (replicate 12 0 @ validators ! i)"
proof -
  define v where "v = validators ! i"
  define si where "si = getStorageIndexes v (of_nat i)"
  define st0 where "st0 = validatorsLoop 10000000000000000000 0 (take i validators) (0, Map.empty)"
  define kArr where "kArr = BytesToHash (ValidatorsIndex si)"
  define kIs where "kIs = BytesToHash (AddressToIsValidatorIndex si)"
  define kSt where "kSt = BytesToHash (AddressToStakedAmountIndex si)"
  define kIx where "kIx = BytesToHash (AddressToValidatorIndexIndex si)"
  define kTotal where "kTotal = BytesToHash (big_Bytes (big_NewInt stakedAmountSlot))"
  define kLen where "kLen = BytesToHash [ucast validatorsSlot :: byte]"
  define m where "m = snd (loopBody 10000000000000000000 i v st0)"
  have i63: "i < 2 ^ 63"
    using assms(1,2) by simp
  have scalars: "StakedAmountIndex si = big_Bytes (big_NewInt stakedAmountSlot)"
      "ValidatorsArraySizeIndex si = [ucast validatorsSlot]"
    by (simp_all add: si_def getStorageIndexes_scalar_fields)
  have fresh: "kIs \<noteq> kSt" "kIs \<noteq> kIx" "kSt \<noteq> kIx"
      "kIs \<noteq> kArr" "kIs \<noteq> kTotal" "kIs \<noteq> kLen"
      "kSt \<noteq> kArr" "kSt \<noteq> kTotal" "kSt \<noteq> kLen"
      "kIx \<noteq> kArr" "kIx \<noteq> kTotal" "kIx \<noteq> kLen"
    using assms(4)
    by (simp_all add: mappingKeysFresh_def Let_def v_def [symmetric] si_def [symmetric] scalars
        kArr_def kIs_def kSt_def kIx_def kTotal_def kLen_def)
  have arr: "kArr \<noteq> kTotal" "kArr \<noteq> kLen"
    using ValidatorsIndex_not_scalar [OF i63, of v]
    by (simp_all add: kArr_def kTotal_def kLen_def si_def)
  have tl: "kTotal \<noteq> kLen"
    using scalar_keys_distinct(1) by (simp add: kTotal_def kLen_def)
  have m_eq: "m = (snd st0)
      (kArr \<mapsto> BytesToHash v,
       kIs \<mapsto> BytesToHash (big_Bytes (big_NewInt 1)),
       kSt \<mapsto> StringToHash (hex_EncodeBig 10000000000000000000),
       kIx \<mapsto> StringToHash (hex_EncodeUint64 (of_nat i)),
       kTotal \<mapsto> BytesToHash (big_Bytes (fst st0 + 10000000000000000000)),
       kLen \<mapsto> StringToHash (hex_EncodeUint64 (of_nat (Suc i))))"
    by (simp add: m_def loopBody_writes kArr_def kIs_def kSt_def kIx_def kTotal_def kLen_def si_def)
  have total: "fst st0 = int i * 10000000000000000000"
    using assms(1) by (simp add: st0_def fst_validatorsLoop)
  have "(i + 1) * 10000000000000000000 \<le> 2 ^ 63 * 10000000000000000000"
    using i63 by simp
  also have "\<dots> < (2 :: nat) ^ 256"
    by simp
  finally have bound: "(i + 1) * 10000000000000000000 < (2 :: nat) ^ 256" .
  have vTotal: "bytesNat (BytesToHash (big_Bytes (fst st0 + 10000000000000000000))) =
      (i + 1) * 10000000000000000000"
  proof -
    have "fst st0 + 10000000000000000000 = int ((i + 1) * 10000000000000000000)"
      by (simp add: total algebra_simps)
    with bound show ?thesis
      by (simp only: bytesNat_BytesToHash bytesNat_big_Bytes abs_of_nat nat_int mod_less)
  qed
  have "Suc i < 2 ^ 64"
    using i63 by simp
  then have "unat (of_nat (Suc i) :: uint64) = Suc i"
    by (rule unat_of_nat_index)
  then have vLen: "bytesNat (StringToHash (hex_EncodeUint64 (of_nat (Suc i)))) = i + 1"
    by (simp only: hashUint_EncodeUint64 Suc_eq_plus1)
  have vIx: "bytesNat (StringToHash (hex_EncodeUint64 (of_nat i))) = i"
    using i63 by (simp add: hashUint_EncodeUint64 unat_of_nat_index)
  have vIs: "bytesNat (BytesToHash (big_Bytes (big_NewInt 1))) = 1"
    by (simp add: hashUint_count)
  have vSt: "bytesNat (StringToHash (hex_EncodeBig 10000000000000000000)) = 10000000000000000000"
    by (simp add: hashUint_EncodeBig)
  have vArr: "BytesToHash v = replicate 12 0 @ v"
    using assms(3) by (simp add: v_def BytesToHash_address)
  have loop: "validatorsLoop 10000000000000000000 0 (take (Suc i) validators) (0, Map.empty) =
      loopBody 10000000000000000000 i v st0"
    using assms(1) by (simp add: validatorsLoop_take_Suc v_def st0_def)
  have "map_option bytesNat (m kLen) = Some (i + 1)"
    by (simp add: m_eq vLen del: of_nat_Suc)
  moreover have "map_option bytesNat (m kTotal) = Some ((i + 1) * 10000000000000000000)"
    using tl by (simp add: m_eq vTotal)
  moreover have "map_option bytesNat (m kIx) = Some i"
    using fresh by (simp add: m_eq vIx)
  moreover have "map_option bytesNat (m kIs) = Some 1"
    using fresh by (simp add: m_eq vIs)
  moreover have "map_option bytesNat (m kSt) = Some 10000000000000000000"
    using fresh by (simp add: m_eq vSt)
  moreover have "m kArr = Some (replicate 12 0 @ v)"
    using fresh arr by (simp add: m_eq vArr)
  ultimately show ?thesis
    unfolding Let_def loop m_def [symmetric] v_def [symmetric] si_def [symmetric] scalars
      kArr_def [symmetric] kIs_def [symmetric] kSt_def [symmetric] kIx_def [symmetric]
      kTotal_def [symmetric] kLen_def [symmetric]
    by blast
qed

theorem snapshot_after_each_validator_witness:
  "(1 :: nat) < length [replicate 20 (0x11 :: byte), replicate 20 0x22] \<and>
   length [replicate 20 (0x11 :: byte), replicate 20 0x22] < 2 ^ 63 \<and>
   length ([replicate 20 (0x11 :: byte), replicate 20 0x22] ! 1) = 20 \<and>
   mappingKeysFresh ([replicate 20 0x11, replicate 20 0x22] ! 1) (of_nat 1) \<and>
   (let storageMap = snd (validatorsLoop 10000000000000000000 0
                            (take (Suc 1) [replicate 20 0x11, replicate 20 0x22]) (0, Map.empty));
        storageIndexes = getStorageIndexes ([replicate 20 0x11, replicate 20 0x22] ! 1) (of_nat 1)
    in map_option bytesNat (storageMap (BytesToHash (ValidatorsArraySizeIndex storageIndexes))) =
         Some (1 + 1) \<and>
       map_option bytesNat (storageMap (BytesToHash (StakedAmountIndex storageIndexes))) =
         Some ((1 + 1) * 10000000000000000000) \<and>
       map_option bytesNat (storageMap (BytesToHash (AddressToValidatorIndexIndex storageIndexes))) =
         Some 1 \<and>
       map_option bytesNat (storageMap (BytesToHash (AddressToIsValidatorIndex storageIndexes))) =
         Some 1 \<and>
       map_option bytesNat (storageMap (BytesToHash (AddressToStakedAmountIndex storageIndexes))) =
         Some 10000000000000000000 \<and>
       storageMap (BytesToHash (ValidatorsIndex storageIndexes)) =
         Some (replicate 12 0 @ [replicate 20 0x11, replicate 20 0x22] ! 1))"
proof -
  have h1: "(1 :: nat) < length [replicate 20 (0x11 :: byte), replicate 20 0x22]"
    by simp
  have h2: "length [replicate 20 (0x11 :: byte), replicate 20 0x22] < 2 ^ 63"
    by simp
  have h3: "length ([replicate 20 (0x11 :: byte), replicate 20 0x22] ! 1) = 20"
    by simp
  have h4: "mappingKeysFresh ([replicate 20 0x11, replicate 20 0x22] ! 1) (of_nat 1)"
    using mappingKeysFresh_example by simp
  from snapshot_after_each_validator [OF h1 h2 h3 h4] h1 h2 h3 h4 show ?thesis
    by blast
qed

text \<open>
  Claim C4. For every list of \<open>N\<close> validators (a Go slice has fewer than \<open>2 ^ 63\<close>
  elements) the builder returns an account; the value read at the aggregate-stake key is
  exactly \<open>N\<close> times 10000000000000000000, an entry that exists as soon as there is a
  validator (with no validator the key is absent and reads as 0); and the balance of the
  account is the same total.
\<close>

theorem total_stake_and_balance:
  assumes "length validators < 2 ^ 63"
  shows "\<exists>account. PredeployStakingSC validators params = (Some account, None) \<and>
     storageUint (Storage account) (BytesToHash (big_Bytes (big_NewInt stakedAmountSlot))) =
       length validators * 10000000000000000000 \<and>
     (validators \<noteq> [] \<longrightarrow>
       BytesToHash (big_Bytes (big_NewInt stakedAmountSlot)) \<in> dom (Storage account)) \<and>
     Balance account = int (length validators) * 10000000000000000000"
proof (cases "validators = []")
  case True
  then show ?thesis
    using scalar_keys_distinct by (simp add: PredeployStakingSC_result storageUint_def)
next
  case False
  have "length validators * 10000000000000000000 < 2 ^ 63 * 10000000000000000000"
    using assms by simp
  also have "\<dots> < (2 :: nat) ^ 256"
    by simp
  finally have "bytesNat (BytesToHash (big_Bytes (int (length validators) * 10000000000000000000))) =
      length validators * 10000000000000000000"
    by (simp add: bytesNat_BytesToHash bytesNat_big_Bytes abs_mult nat_mult_distrib)
  with False show ?thesis
    using scalar_keys_distinct
    by (simp add: PredeployStakingSC_result storageUint_def validatorsLoop_total_stake
        fst_validatorsLoop domIff)
qed

theorem total_stake_and_balance_witness:
  "length [replicate 20 (0x11 :: byte), replicate 20 0x22] < 2 ^ 63 \<and>
   [replicate 20 (0x11 :: byte), replicate 20 0x22] \<noteq> [] \<and>
   (\<exists>account.
      PredeployStakingSC [replicate 20 0x11, replicate 20 0x22]
        \<lparr> MinValidatorCount = 1, MaxValidatorCount = 100 \<rparr> = (Some account, None) \<and>
      storageUint (Storage account) (BytesToHash (big_Bytes (big_NewInt stakedAmountSlot))) =
        20000000000000000000 \<and>
      BytesToHash (big_Bytes (big_NewInt stakedAmountSlot)) \<in> dom (Storage account) \<and>
      Balance account = 20000000000000000000)"
proof -
  have h: "length [replicate 20 (0x11 :: byte), replicate 20 0x22] < 2 ^ 63"
    by simp
  from total_stake_and_balance [OF h, of "\<lparr> MinValidatorCount = 1, MaxValidatorCount = 100 \<rparr>"] h
  show ?thesis
    by simp
qed

text \<open>
  Claim C5. On the empty validator list the builder returns an account whose storage
  map has exactly two entries, the min-validator-count and the max-validator-count
  scalars; the array-length key is absent, so the array length reads as 0; and the
  balance is 0.
\<close>

theorem PredeployStakingSC_no_validators:
  "\<exists>account. PredeployStakingSC [] params = (Some account, None) \<and>
     dom (Storage account) =
       {BytesToHash (big_Bytes (big_NewInt minNumValidatorSlot)),
        BytesToHash (big_Bytes (big_NewInt maxNumValidatorSlot))} \<and>
     BytesToHash (big_Bytes (big_NewInt minNumValidatorSlot)) \<noteq>
       BytesToHash (big_Bytes (big_NewInt maxNumValidatorSlot)) \<and>
     Storage account (BytesToHash [ucast validatorsSlot]) = None \<and>
     storageUint (Storage account) (BytesToHash [ucast validatorsSlot]) = 0 \<and>
     Balance account = 0"
  using scalar_keys_distinct
  by (auto simp add: PredeployStakingSC_result storageUint_def)

text \<open>
  Claim C6. The builder is deterministic: two invocations with the same addresses in
  the same order and the same minimum and maximum counts return the same account
  (code, storage map and balance) and the same error. The builder reads nothing but its
  arguments and constants.
\<close>

theorem PredeployStakingSC_deterministic:
  assumes "validators1 = validators2"
    and "MinValidatorCount params1 = MinValidatorCount params2"
    and "MaxValidatorCount params1 = MaxValidatorCount params2"
  shows "PredeployStakingSC validators1 params1 = PredeployStakingSC validators2 params2"
  using assms by (simp add: PredeployStakingSC_result)

theorem PredeployStakingSC_deterministic_witness:
  "[replicate 20 (0x11 :: byte), replicate 20 0x22] = [replicate 20 0x11] @ [replicate 20 0x22] \<and>
   MinValidatorCount \<lparr> MinValidatorCount = 1, MaxValidatorCount = 100 \<rparr> =
     MinValidatorCount \<lparr> MinValidatorCount = 0 + 1, MaxValidatorCount = 10 * 10 \<rparr> \<and>
   MaxValidatorCount \<lparr> MinValidatorCount = 1, MaxValidatorCount = 100 \<rparr> =
     MaxValidatorCount \<lparr> MinValidatorCount = 0 + 1, MaxValidatorCount = 10 * 10 \<rparr> \<and>
   PredeployStakingSC [replicate 20 0x11, replicate 20 0x22]
     \<lparr> MinValidatorCount = 1, MaxValidatorCount = 100 \<rparr> =
   PredeployStakingSC ([replicate 20 0x11] @ [replicate 20 0x22])
     \<lparr> MinValidatorCount = 0 + 1, MaxValidatorCount = 10 * 10 \<rparr>"
proof -
  have h1: "[replicate 20 (0x11 :: byte), replicate 20 0x22] =
      [replicate 20 0x11] @ [replicate 20 0x22]"
    by simp
  have h2: "MinValidatorCount \<lparr> MinValidatorCount = 1, MaxValidatorCount = 100 \<rparr> =
      MinValidatorCount \<lparr> MinValidatorCount = 0 + 1, MaxValidatorCount = 10 * 10 \<rparr>"
    by simp
  have h3: "MaxValidatorCount \<lparr> MinValidatorCount = 1, MaxValidatorCount = 100 \<rparr> =
      MaxValidatorCount \<lparr> MinValidatorCount = 0 + 1, MaxValidatorCount = 10 * 10 \<rparr>"
    by simp
  from PredeployStakingSC_deterministic [OF h1 h2 h3] h1 h2 h3 show ?thesis
    by blast
qed

text \<open>
  Claim C9. \<open>PredeployStakingSC\<close> never returns an error: the literal
  \<open>DefaultStakedBalance\<close> parses (to 10000000000000000000), so for every validator list
  and every \<open>PredeployParams\<close> value the result is an account and a nil error.
\<close>

theorem PredeployStakingSC_never_fails:
  "\<exists>account. PredeployStakingSC validators params = (Some account, None)"
  by (simp add: PredeployStakingSC_result)

text \<open>
  The counts go through \<^verbatim>\<open>int64\<close> before they are encoded. When both counts are at most
  \<open>2 ^ 63 - 1\<close>, the values stored at the min-count and max-count keys are the counts
  themselves.
\<close>

lemma min_max_counts_stored:
  assumes "unat (MinValidatorCount params) \<le> 2 ^ 63 - 1"
    and "unat (MaxValidatorCount params) \<le> 2 ^ 63 - 1"
  shows "\<exists>account. PredeployStakingSC validators params = (Some account, None) \<and>
     map_option bytesNat (Storage account (BytesToHash (big_Bytes (big_NewInt minNumValidatorSlot)))) =
       Some (unat (MinValidatorCount params)) \<and>
     map_option bytesNat (Storage account (BytesToHash (big_Bytes (big_NewInt maxNumValidatorSlot)))) =
       Some (unat (MaxValidatorCount params))"
  using assms scalar_keys_distinct
  by (simp add: PredeployStakingSC_result hashUint_count sint_small_count)

lemma min_max_counts_stored_example:
  "unat (MinValidatorCount \<lparr> MinValidatorCount = 1, MaxValidatorCount = 100 \<rparr>) \<le> 2 ^ 63 - 1 \<and>
   unat (MaxValidatorCount \<lparr> MinValidatorCount = 1, MaxValidatorCount = 100 \<rparr>) \<le> 2 ^ 63 - 1 \<and>
   (\<exists>account.
      PredeployStakingSC [replicate 20 0x11, replicate 20 0x22]
        \<lparr> MinValidatorCount = 1, MaxValidatorCount = 100 \<rparr> = (Some account, None) \<and>
      map_option bytesNat
        (Storage account (BytesToHash (big_Bytes (big_NewInt minNumValidatorSlot)))) = Some 1 \<and>
      map_option bytesNat
        (Storage account (BytesToHash (big_Bytes (big_NewInt maxNumValidatorSlot)))) = Some 100)"
proof -
  have h1: "unat (MinValidatorCount \<lparr> MinValidatorCount = 1, MaxValidatorCount = 100 \<rparr>) \<le> 2 ^ 63 - 1"
    by simp
  have h2: "unat (MaxValidatorCount \<lparr> MinValidatorCount = 1, MaxValidatorCount = 100 \<rparr>) \<le> 2 ^ 63 - 1"
    by simp
  from min_max_counts_stored [OF h1 h2, of "[replicate 20 0x11, replicate 20 0x22]"] h1 h2
  show ?thesis
    by simp
qed

text \<open>
  Claim C10 as stated fails: the stored values equal the counts "only when each count is
  at most \<open>2 ^ 63 - 1\<close>", but at the count \<open>2 ^ 63\<close> the conversion gives \<open>- (2 ^ 63)\<close>,
  whose absolute value is the count again.
\<close>

theorem count_at_int64_boundary_stored:
  "\<not> unat (MinValidatorCount
             \<lparr> MinValidatorCount = 0x8000000000000000, MaxValidatorCount = 1 \<rparr>) \<le> 2 ^ 63 - 1 \<and>
   (\<exists>account.
      PredeployStakingSC [replicate 20 0x11]
        \<lparr> MinValidatorCount = 0x8000000000000000, MaxValidatorCount = 1 \<rparr> = (Some account, None) \<and>
      map_option bytesNat
        (Storage account (BytesToHash (big_Bytes (big_NewInt minNumValidatorSlot)))) =
        Some (unat (MinValidatorCount
                      \<lparr> MinValidatorCount = 0x8000000000000000, MaxValidatorCount = 1 \<rparr>)) \<and>
      map_option bytesNat
        (Storage account (BytesToHash (big_Bytes (big_NewInt maxNumValidatorSlot)))) =
        Some (unat (MaxValidatorCount
                      \<lparr> MinValidatorCount = 0x8000000000000000, MaxValidatorCount = 1 \<rparr>)))"
  using scalar_keys_distinct
  by (simp add: PredeployStakingSC_result hashUint_count)

text \<open>
  Claim C10, amended. The builder always returns an account, and the value stored at the
  min-count key equals \<open>MinValidatorCount\<close> exactly when that count is at most \<open>2 ^ 63\<close>;
  likewise for the max-count key and \<open>MaxValidatorCount\<close>. So the equality is guaranteed
  for counts up to \<open>2 ^ 63 - 1\<close>, holds at \<open>2 ^ 63\<close> as well, and fails for every greater
  count.
\<close>

theorem min_max_counts_stored_iff:
  "\<exists>account. PredeployStakingSC validators params = (Some account, None) \<and>
     (map_option bytesNat
        (Storage account (BytesToHash (big_Bytes (big_NewInt minNumValidatorSlot)))) =
        Some (unat (MinValidatorCount params)) \<longleftrightarrow>
      unat (MinValidatorCount params) \<le> 2 ^ 63) \<and>
     (map_option bytesNat
        (Storage account (BytesToHash (big_Bytes (big_NewInt maxNumValidatorSlot)))) =
        Some (unat (MaxValidatorCount params)) \<longleftrightarrow>
      unat (MaxValidatorCount params) \<le> 2 ^ 63)"
  using scalar_keys_distinct
  by (simp add: PredeployStakingSC_result stored_count_iff)

theorem min_max_counts_stored_iff_witness:
  "\<exists>account.
     PredeployStakingSC [replicate 20 0x11]
       \<lparr> MinValidatorCount = 0x8000000000000000, MaxValidatorCount = 0xFFFFFFFFFFFFFFFF \<rparr> =
       (Some account, None) \<and>
     map_option bytesNat
       (Storage account (BytesToHash (big_Bytes (big_NewInt minNumValidatorSlot)))) =
       Some 9223372036854775808 \<and>
     map_option bytesNat
       (Storage account (BytesToHash (big_Bytes (big_NewInt maxNumValidatorSlot)))) \<noteq>
       Some 18446744073709551615"
  using min_max_counts_stored_iff [of "[replicate 20 0x11]"
      "\<lparr> MinValidatorCount = 0x8000000000000000, MaxValidatorCount = 0xFFFFFFFFFFFFFFFF \<rparr>"]
  by auto

section \<open>The artifact loader\<close>

text \<open>
  Claim C7 as stated fails: an artifact file that decodes to a JSON object without the
  field \<^verbatim>\<open>contractABI\<close> makes the loader panic.
\<close>

theorem loadFromFile_missing_field_panics:
  "loadFromFile (testCollaborators (Inr 0) (Inr [123, 125]) (Inr Map.empty) (Inr \<lparr> Constructor = None \<rparr>))
     \<lparr> ABI = [], Bytecode = [], DeployedBytecode = [] \<rparr> ''artifact.json'' = Panics ''bad''"
  by (simp add: loadFromFile_def testCollaborators_def setABI_def)

text \<open>
  Claim C7, amended. A file that cannot be opened, a file that cannot be read and a file
  that is no JSON object are reported to the caller as the error return value, with the
  artifact unchanged; so is a failure to encode the ABI again, and so is a malformed hex
  string in \<^verbatim>\<open>bytecode\<close> or \<^verbatim>\<open>deployedBytecode\<close>, with the fields set before it. A missing
  \<^verbatim>\<open>contractABI\<close> field aborts with the panic \<^verbatim>\<open>bad\<close>; once the ABI is set, a
  \<^verbatim>\<open>bytecode\<close> field that is missing or no string aborts with the panic \<^verbatim>\<open>bad\<close>; once
  the bytecode is set, a \<^verbatim>\<open>deployedBytecode\<close> field that is missing or no string aborts
  with the panic \<^verbatim>\<open>bad \<close> (with a trailing blank). With the three fields present and
  well-formed the loader returns the filled artifact and a nil error.
\<close>

theorem loadFromFile_outcomes:
  "(os_Open env filepath = Inl err \<longrightarrow>
      loadFromFile env c filepath = Returns (c, Some err)) \<and>
   (os_Open env filepath = Inr handle \<and> ioutil_ReadAll env handle = Inl err \<longrightarrow>
      loadFromFile env c filepath = Returns (c, Some err)) \<and>
   (os_Open env filepath = Inr handle \<and> ioutil_ReadAll env handle = Inr bytes \<and>
    json_Unmarshal env bytes = Inl err \<longrightarrow>
      loadFromFile env c filepath = Returns (c, Some err)) \<and>
   (os_Open env filepath = Inr handle \<and> ioutil_ReadAll env handle = Inr bytes \<and>
    json_Unmarshal env bytes = Inr fileJSON \<longrightarrow>
      (fileJSON ''contractABI'' = None \<longrightarrow>
         loadFromFile env c filepath = Panics ''bad'') \<and>
      (fileJSON ''contractABI'' = Some rawABI \<and> json_Marshal env rawABI = Inl err \<longrightarrow>
         loadFromFile env c filepath = Returns (c, Some err)) \<and>
      (fileJSON ''contractABI'' = Some rawABI \<and> json_Marshal env rawABI = Inr contractABI \<longrightarrow>
         ((\<forall>s. fileJSON ''bytecode'' \<noteq> Some (JString s)) \<longrightarrow>
            loadFromFile env c filepath = Panics ''bad'') \<and>
         (fileJSON ''bytecode'' = Some (JString rawBytecode) \<and>
          hex_DecodeString (TrimPrefix rawBytecode ''0x'') = (bytecode, Some err) \<longrightarrow>
            loadFromFile env c filepath = Returns (c\<lparr>ABI := contractABI\<rparr>, Some err)) \<and>
         (fileJSON ''bytecode'' = Some (JString rawBytecode) \<and>
          hex_DecodeString (TrimPrefix rawBytecode ''0x'') = (bytecode, None) \<longrightarrow>
            ((\<forall>s. fileJSON ''deployedBytecode'' \<noteq> Some (JString s)) \<longrightarrow>
               loadFromFile env c filepath = Panics ''bad '') \<and>
            (fileJSON ''deployedBytecode'' = Some (JString rawDeployedBytecode) \<and>
             hex_DecodeString (TrimPrefix rawDeployedBytecode ''0x'') = (deployedBytecode, Some err) \<longrightarrow>
               loadFromFile env c filepath =
                 Returns (c\<lparr>ABI := contractABI, Bytecode := bytecode\<rparr>, Some err)) \<and>
            (fileJSON ''deployedBytecode'' = Some (JString rawDeployedBytecode) \<and>
             hex_DecodeString (TrimPrefix rawDeployedBytecode ''0x'') = (deployedBytecode, None) \<longrightarrow>
               loadFromFile env c filepath =
                 Returns (c\<lparr>ABI := contractABI, Bytecode := bytecode,
                            DeployedBytecode := deployedBytecode\<rparr>, None)))))"
proof -
  have nb: "setBytecode c' fileJSON = Panics ''bad''"
    if "\<forall>s. fileJSON ''bytecode'' \<noteq> Some (JString s)" for c'
    using that by (auto simp add: setBytecode_def split: option.splits json.splits)
  have nd: "setDeployedBytecode c' fileJSON = Panics ''bad ''"
    if "\<forall>s. fileJSON ''deployedBytecode'' \<noteq> Some (JString s)" for c'
    using that by (auto simp add: setDeployedBytecode_def split: option.splits json.splits)
  have sb: "setBytecode c' fileJSON =
      (case hex_DecodeString (TrimPrefix raw ''0x'') of
         (b, Some e) \<Rightarrow> Returns (c', Some e)
       | (b, None) \<Rightarrow> Returns (c'\<lparr>Bytecode := b\<rparr>, None))"
    if "fileJSON ''bytecode'' = Some (JString raw)" for c' raw
    using that by (simp add: setBytecode_def)
  have sd: "setDeployedBytecode c' fileJSON =
      (case hex_DecodeString (TrimPrefix raw ''0x'') of
         (b, Some e) \<Rightarrow> Returns (c', Some e)
       | (b, None) \<Rightarrow> Returns (c'\<lparr>DeployedBytecode := b\<rparr>, None))"
    if "fileJSON ''deployedBytecode'' = Some (JString raw)" for c' raw
    using that by (simp add: setDeployedBytecode_def)
  show ?thesis
    by (auto simp add: loadFromFile_def setABI_def nb nd sb sd)
qed

theorem loadFromFile_outcomes_witness:
  "loadFromFile
     (testCollaborators (Inl (CollaboratorError ''no such file'')) (Inr []) (Inr Map.empty)
        (Inr \<lparr> Constructor = None \<rparr>)) noArtifact ''artifact.json'' =
     Returns (noArtifact, Some (CollaboratorError ''no such file'')) \<and>
   loadFromFile
     (testCollaborators (Inr 0) (Inl (CollaboratorError ''read error'')) (Inr Map.empty)
        (Inr \<lparr> Constructor = None \<rparr>)) noArtifact ''artifact.json'' =
     Returns (noArtifact, Some (CollaboratorError ''read error'')) \<and>
   loadFromFile
     (testCollaborators (Inr 0) (Inr [123]) (Inl (CollaboratorError ''unexpected end of JSON input''))
        (Inr \<lparr> Constructor = None \<rparr>)) noArtifact ''artifact.json'' =
     Returns (noArtifact, Some (CollaboratorError ''unexpected end of JSON input'')) \<and>
   loadFromFile (artifactFile Map.empty) noArtifact ''artifact.json'' = Panics ''bad'' \<and>
   loadFromFile
     ((artifactFile [''contractABI'' \<mapsto> JArray []])
        \<lparr> json_Marshal := (\<lambda>value. Inl (CollaboratorError ''unsupported value'')) \<rparr>)
     noArtifact ''artifact.json'' =
     Returns (noArtifact, Some (CollaboratorError ''unsupported value'')) \<and>
   loadFromFile (artifactFile [''contractABI'' \<mapsto> JArray [], ''bytecode'' \<mapsto> JNumber 1])
     noArtifact ''artifact.json'' = Panics ''bad'' \<and>
   loadFromFile (artifactFile [''contractABI'' \<mapsto> JArray [], ''bytecode'' \<mapsto> JString ''0xzz''])
     noArtifact ''artifact.json'' =
     Returns (noArtifact\<lparr>ABI := []\<rparr>, Some (InvalidByteError CHR ''z'')) \<and>
   loadFromFile (artifactFile [''contractABI'' \<mapsto> JArray [], ''bytecode'' \<mapsto> JString ''0x6080''])
     noArtifact ''artifact.json'' = Panics ''bad '' \<and>
   loadFromFile
     (artifactFile [''contractABI'' \<mapsto> JArray [], ''bytecode'' \<mapsto> JString ''0x6080'',
        ''deployedBytecode'' \<mapsto> JString ''0x608''])
     noArtifact ''artifact.json'' =
     Returns (noArtifact\<lparr>ABI := [], Bytecode := [0x60, 0x80]\<rparr>, Some ErrLength) \<and>
   loadFromFile (artifactFile goodArtifactJSON) noArtifact ''artifact.json'' =
     Returns (noArtifact\<lparr>ABI := [], Bytecode := [0x60, 0x80], DeployedBytecode := [0x60, 0x80]\<rparr>,
              None)"
proof -
  note t = loadFromFile_outcomes [where c = noArtifact and filepath = "''artifact.json''"]
  note ev = artifactFile_def testCollaborators_def goodArtifactJSON_def TrimPrefix_def
    HasPrefix_def fromHexChar_def
  have c1: "loadFromFile
     (testCollaborators (Inl (CollaboratorError ''no such file'')) (Inr []) (Inr Map.empty)
        (Inr \<lparr> Constructor = None \<rparr>)) noArtifact ''artifact.json'' =
     Returns (noArtifact, Some (CollaboratorError ''no such file''))"
    using t [where env = "testCollaborators (Inl (CollaboratorError ''no such file'')) (Inr [])
        (Inr Map.empty) (Inr \<lparr> Constructor = None \<rparr>)"
        and err = "CollaboratorError ''no such file''"]
    by (simp add: ev)
  have c2: "loadFromFile
     (testCollaborators (Inr 0) (Inl (CollaboratorError ''read error'')) (Inr Map.empty)
        (Inr \<lparr> Constructor = None \<rparr>)) noArtifact ''artifact.json'' =
     Returns (noArtifact, Some (CollaboratorError ''read error''))"
    using t [where env = "testCollaborators (Inr 0) (Inl (CollaboratorError ''read error''))
        (Inr Map.empty) (Inr \<lparr> Constructor = None \<rparr>)"
        and err = "CollaboratorError ''read error''" and handle = 0]
    by (simp add: ev)
  have c3: "loadFromFile
     (testCollaborators (Inr 0) (Inr [123]) (Inl (CollaboratorError ''unexpected end of JSON input''))
        (Inr \<lparr> Constructor = None \<rparr>)) noArtifact ''artifact.json'' =
     Returns (noArtifact, Some (CollaboratorError ''unexpected end of JSON input''))"
    using t [where env = "testCollaborators (Inr 0) (Inr [123])
        (Inl (CollaboratorError ''unexpected end of JSON input'')) (Inr \<lparr> Constructor = None \<rparr>)"
        and err = "CollaboratorError ''unexpected end of JSON input''" and handle = 0
        and bytes = "[123]"]
    by (simp add: ev)
  have c4: "loadFromFile (artifactFile Map.empty) noArtifact ''artifact.json'' = Panics ''bad''"
    using t [where env = "artifactFile Map.empty" and handle = 0 and bytes = "[]"
        and fileJSON = Map.empty]
    by (simp add: ev)
  have c5: "loadFromFile
     ((artifactFile [''contractABI'' \<mapsto> JArray []])
        \<lparr> json_Marshal := (\<lambda>value. Inl (CollaboratorError ''unsupported value'')) \<rparr>)
     noArtifact ''artifact.json'' =
     Returns (noArtifact, Some (CollaboratorError ''unsupported value''))"
    using t [where env = "(artifactFile [''contractABI'' \<mapsto> JArray []])
        \<lparr> json_Marshal := (\<lambda>value. Inl (CollaboratorError ''unsupported value'')) \<rparr>"
        and handle = 0 and bytes = "[]" and fileJSON = "[''contractABI'' \<mapsto> JArray []]"
        and rawABI = "JArray []" and err = "CollaboratorError ''unsupported value''"]
    by (simp add: ev)
  have c6: "loadFromFile (artifactFile [''contractABI'' \<mapsto> JArray [], ''bytecode'' \<mapsto> JNumber 1])
     noArtifact ''artifact.json'' = Panics ''bad''"
    using t [where env = "artifactFile [''contractABI'' \<mapsto> JArray [], ''bytecode'' \<mapsto> JNumber 1]"
        and handle = 0 and bytes = "[]"
        and fileJSON = "[''contractABI'' \<mapsto> JArray [], ''bytecode'' \<mapsto> JNumber 1]"
        and rawABI = "JArray []" and contractABI = "[]"]
    by (simp add: ev)
  have c7: "loadFromFile (artifactFile [''contractABI'' \<mapsto> JArray [], ''bytecode'' \<mapsto> JString ''0xzz''])
     noArtifact ''artifact.json'' =
     Returns (noArtifact\<lparr>ABI := []\<rparr>, Some (InvalidByteError CHR ''z''))"
    using t [where env = "artifactFile [''contractABI'' \<mapsto> JArray [], ''bytecode'' \<mapsto> JString ''0xzz'']"
        and handle = 0 and bytes = "[]"
        and fileJSON = "[''contractABI'' \<mapsto> JArray [], ''bytecode'' \<mapsto> JString ''0xzz'']"
        and rawABI = "JArray []" and contractABI = "[]" and rawBytecode = "''0xzz''"
        and bytecode = "[]" and err = "InvalidByteError CHR ''z''"]
    by (simp add: ev)
  have c8: "loadFromFile (artifactFile [''contractABI'' \<mapsto> JArray [], ''bytecode'' \<mapsto> JString ''0x6080''])
     noArtifact ''artifact.json'' = Panics ''bad ''"
    using t [where env = "artifactFile [''contractABI'' \<mapsto> JArray [], ''bytecode'' \<mapsto> JString ''0x6080'']"
        and handle = 0 and bytes = "[]"
        and fileJSON = "[''contractABI'' \<mapsto> JArray [], ''bytecode'' \<mapsto> JString ''0x6080'']"
        and rawABI = "JArray []" and contractABI = "[]" and rawBytecode = "''0x6080''"
        and bytecode = "[0x60, 0x80]"]
    by (simp add: ev)
  have c9: "loadFromFile
     (artifactFile [''contractABI'' \<mapsto> JArray [], ''bytecode'' \<mapsto> JString ''0x6080'',
        ''deployedBytecode'' \<mapsto> JString ''0x608''])
     noArtifact ''artifact.json'' =
     Returns (noArtifact\<lparr>ABI := [], Bytecode := [0x60, 0x80]\<rparr>, Some ErrLength)"
    using t [where env = "artifactFile [''contractABI'' \<mapsto> JArray [],
          ''bytecode'' \<mapsto> JString ''0x6080'', ''deployedBytecode'' \<mapsto> JString ''0x608'']"
        and handle = 0 and bytes = "[]"
        and fileJSON = "[''contractABI'' \<mapsto> JArray [], ''bytecode'' \<mapsto> JString ''0x6080'',
          ''deployedBytecode'' \<mapsto> JString ''0x608'']"
        and rawABI = "JArray []" and contractABI = "[]" and rawBytecode = "''0x6080''"
        and bytecode = "[0x60, 0x80]" and rawDeployedBytecode = "''0x608''"
        and deployedBytecode = "[0x60]" and err = ErrLength]
    by (simp add: ev)
  have c10: "loadFromFile (artifactFile goodArtifactJSON) noArtifact ''artifact.json'' =
     Returns (noArtifact\<lparr>ABI := [], Bytecode := [0x60, 0x80], DeployedBytecode := [0x60, 0x80]\<rparr>,
              None)"
    using t [where env = "artifactFile goodArtifactJSON" and handle = 0 and bytes = "[]"
        and fileJSON = goodArtifactJSON and rawABI = "JArray []" and contractABI = "[]"
        and rawBytecode = "''0x6080''" and bytecode = "[0x60, 0x80]"
        and rawDeployedBytecode = "''0x6080''" and deployedBytecode = "[0x60, 0x80]"]
    by (simp add: ev)
  from c1 c2 c3 c4 c5 c6 c7 c8 c9 c10 show ?thesis
    by blast
qed

text \<open>
  Claim C8 as stated fails: when the ABI parser rejects the ABI of a well-formed
  artifact, \<open>encodeCustomConstructor\<close> returns a nil slice and no error, and with an
  account generator that accepts empty bytecode the caller gets an account and a nil
  error.
\<close>

theorem abi_failure_not_propagated:
  "abi_NewABI (testCollaborators (Inr 0) (Inr []) (Inr goodArtifactJSON)
       (Inl (CollaboratorError ''invalid abi''))) [] = Inl (CollaboratorError ''invalid abi'') \<and>
   GenerateGenesisAccountFromFile
     (testCollaborators (Inr 0) (Inr []) (Inr goodArtifactJSON) (Inl (CollaboratorError ''invalid abi'')))
     ''artifact.json'' [IValue 7] =
     Returns (Some \<lparr> Code = [], Storage = Map.empty, Balance = 0 \<rparr>, None)"
  by (simp add: GenerateGenesisAccountFromFile_def generateContractArtifact_def loadFromFile_def
      setABI_def setBytecode_def setDeployedBytecode_def encodeCustomConstructor_def
      testCollaborators_def goodArtifactJSON_def TrimPrefix_def HasPrefix_def fromHexChar_def
      bytesToString_def)

text \<open>
  Claim C8, amended. When the ABI parser or the encoder of the constructor arguments
  fails, the failure itself is dropped: the result is what the generation of a contract
  account from empty bytecode gives, an error (wrapped) only if that generation fails.
  An error of the artifact loader is returned as it is. Whenever an error is returned,
  no account is returned with it.
\<close>

theorem encoding_failure_outcome:
  "(generateContractArtifact env filepath = Returns (Some artifact, None) \<and>
    (abi_NewABI env (bytesToString (ABI artifact)) = Inl err \<or>
     abi_NewABI env (bytesToString (ABI artifact)) = Inr contractABI \<and>
     Constructor contractABI = Some method \<and>
     abi_Encode env [ISlice constructorParams] (Inputs method) = Inl err) \<longrightarrow>
      GenerateGenesisAccountFromFile env filepath constructorParams =
        (case state_GenerateContractAccount env allForks (AddrStakingContract env) [] of
           Inl err' \<Rightarrow> Returns (None, Some (Errorf ''unable to generate contract account - err: '' err'))
         | Inr contractAccount \<Rightarrow> Returns (contractAccount, None))) \<and>
   (generateContractArtifact env filepath = Returns (None, Some err) \<longrightarrow>
      GenerateGenesisAccountFromFile env filepath constructorParams = Returns (None, Some err)) \<and>
   (GenerateGenesisAccountFromFile env filepath constructorParams = Returns (account, Some err) \<longrightarrow>
      account = None)"
  by (auto simp add: GenerateGenesisAccountFromFile_def encodeCustomConstructor_def allForks_def
      split: sum.splits prod.splits option.splits outcome.splits)

theorem encoding_failure_outcome_witness:
  "GenerateGenesisAccountFromFile
     (testCollaborators (Inr 0) (Inr []) (Inr goodArtifactJSON) (Inl (CollaboratorError ''invalid abi'')))
     ''artifact.json'' [IValue 7] =
     (case state_GenerateContractAccount
             (testCollaborators (Inr 0) (Inr []) (Inr goodArtifactJSON)
                (Inl (CollaboratorError ''invalid abi'')))
             allForks
             (AddrStakingContract
                (testCollaborators (Inr 0) (Inr []) (Inr goodArtifactJSON)
                   (Inl (CollaboratorError ''invalid abi'')))) [] of
        Inl err' \<Rightarrow> Returns (None, Some (Errorf ''unable to generate contract account - err: '' err'))
      | Inr contractAccount \<Rightarrow> Returns (contractAccount, None)) \<and>
   GenerateGenesisAccountFromFile
     (testCollaborators (Inl (CollaboratorError ''no such file'')) (Inr []) (Inr goodArtifactJSON)
        (Inl (CollaboratorError ''invalid abi'')))
     ''artifact.json'' [IValue 7] = Returns (None, Some (CollaboratorError ''no such file''))"
proof -
  have load: "generateContractArtifact
      (testCollaborators (Inr 0) (Inr []) (Inr goodArtifactJSON) (Inl (CollaboratorError ''invalid abi'')))
      ''artifact.json'' =
      Returns (Some \<lparr> ABI = [], Bytecode = [0x60, 0x80], DeployedBytecode = [0x60, 0x80] \<rparr>, None)"
    by (simp add: generateContractArtifact_def loadFromFile_def setABI_def setBytecode_def
        setDeployedBytecode_def testCollaborators_def goodArtifactJSON_def TrimPrefix_def
        HasPrefix_def fromHexChar_def)
  have fail: "generateContractArtifact
      (testCollaborators (Inl (CollaboratorError ''no such file'')) (Inr []) (Inr goodArtifactJSON)
         (Inl (CollaboratorError ''invalid abi'')))
      ''artifact.json'' = Returns (None, Some (CollaboratorError ''no such file''))"
    by (simp add: generateContractArtifact_def loadFromFile_def testCollaborators_def)
  have parse: "abi_NewABI
      (testCollaborators (Inr 0) (Inr []) (Inr goodArtifactJSON) (Inl (CollaboratorError ''invalid abi'')))
      (bytesToString (ABI \<lparr> ABI = [], Bytecode = [0x60, 0x80], DeployedBytecode = [0x60, 0x80] \<rparr>)) =
      Inl (CollaboratorError ''invalid abi'')"
    by (simp add: testCollaborators_def)
  from encoding_failure_outcome
    [where env = "testCollaborators (Inr 0) (Inr []) (Inr goodArtifactJSON)
         (Inl (CollaboratorError ''invalid abi''))"
       and filepath = "''artifact.json''" and constructorParams = "[IValue 7]"
       and artifact = "\<lparr> ABI = [], Bytecode = [0x60, 0x80], DeployedBytecode = [0x60, 0x80] \<rparr>"
       and err = "CollaboratorError ''invalid abi''"]
    load parse
  have a: "GenerateGenesisAccountFromFile
     (testCollaborators (Inr 0) (Inr []) (Inr goodArtifactJSON) (Inl (CollaboratorError ''invalid abi'')))
     ''artifact.json'' [IValue 7] =
     (case state_GenerateContractAccount
             (testCollaborators (Inr 0) (Inr []) (Inr goodArtifactJSON)
                (Inl (CollaboratorError ''invalid abi'')))
             allForks
             (AddrStakingContract
                (testCollaborators (Inr 0) (Inr []) (Inr goodArtifactJSON)
                   (Inl (CollaboratorError ''invalid abi'')))) [] of
        Inl err' \<Rightarrow> Returns (None, Some (Errorf ''unable to generate contract account - err: '' err'))
      | Inr contractAccount \<Rightarrow> Returns (contractAccount, None))"
    by blast
  from encoding_failure_outcome
    [where env = "testCollaborators (Inl (CollaboratorError ''no such file'')) (Inr [])
         (Inr goodArtifactJSON) (Inl (CollaboratorError ''invalid abi''))"
       and filepath = "''artifact.json''" and constructorParams = "[IValue 7]"
       and err = "CollaboratorError ''no such file''"]
    fail
  have b: "GenerateGenesisAccountFromFile
     (testCollaborators (Inl (CollaboratorError ''no such file'')) (Inr []) (Inr goodArtifactJSON)
        (Inl (CollaboratorError ''invalid abi'')))
     ''artifact.json'' [IValue 7] = Returns (None, Some (CollaboratorError ''no such file''))"
    by blast
  from a b show ?thesis
    by blast
qed

end
